theory Spec2Isabelle
  imports Main
begin

section \<open>Data model\<close>

text \<open>
  The ledger service of \<^verbatim>\<open>src/app/routes/currencyMod.ts\<close>, with its two gates
  (\<^verbatim>\<open>verifyJWT\<close>, \<^verbatim>\<open>verifyIP\<close>) and the transaction logger
  (\<^verbatim>\<open>logTransactions.ts\<close>).

  Numbers. A JavaScript \<^verbatim>\<open>number\<close> that arrives in a JSON body or comes back from the
  \<^verbatim>\<open>balance\<close> column is modelled as an \<^typ>\<open>int\<close>: the arithmetic of the handlers
  (\<^verbatim>\<open>+\<close>, \<^verbatim>\<open>-\<close>, \<^verbatim>\<open>*\<close>, \<^verbatim>\<open><\<close>, \<^verbatim>\<open><=\<close>) is exact on integers below
  \<open>2\<^sup>5\<^sup>3\<close>. Fractions, rounding and infinities of IEEE doubles are outside the model.

  Tables. \<^verbatim>\<open>user_funds\<close> is a list of rows (the leaderboard orders it);
  \<^verbatim>\<open>daily_rewards\<close> is keyed by its primary key; \<^verbatim>\<open>currency_transactions\<close>
  is the append-only log, oldest row first.
\<close>

record funds_row =
  uuid :: string
  name :: string
  balance :: int

text \<open>\<^verbatim>\<open>interface TransactionData\<close> of \<^verbatim>\<open>logTransactions.ts\<close>; \<open>None\<close> is
  \<^verbatim>\<open>null\<close>, the default of every optional field.\<close>

record TransactionData =
  t_uuid :: string
  t_action :: string
  t_amount :: int
  t_from_uuid :: "string option"
  t_to_uuid :: "string option"
  t_denomination :: "int option"
  t_count :: "int option"
  t_balance_after :: "int option"

datatype level = error | warn | info

text \<open>
  The state a request handler runs against. \<open>tx_snapshot\<close> is the state of the pooled
  client's transaction: \<open>Some\<close> of the four tables as they were at \<^verbatim>\<open>BEGIN\<close> while a
  transaction is open (what \<^verbatim>\<open>ROLLBACK\<close> restores), \<open>None\<close> outside a transaction.
  Requests are run one after the other, so the pool holds one client: \<^verbatim>\<open>db.connect()\<close>
  hands it out, and a statement sent through the pool itself (\<^verbatim>\<open>db.query\<close>) runs on
  the same client, inside its transaction when one was left open. \<open>logfile\<close> is what
  the application logger has written, oldest line first.
\<close>

record world =
  user_funds :: "funds_row list"
  daily_rewards :: "string \<rightharpoonup> int option"
  mob_limit_reached :: "string \<rightharpoonup> int"
  currency_transactions :: "TransactionData list"
  tx_snapshot ::
    "(funds_row list \<times> (string \<rightharpoonup> int option) \<times> (string \<rightharpoonup> int) \<times> TransactionData list) option"
  logfile :: "(level \<times> string) list"

text \<open>A thrown JavaScript error: its \<^verbatim>\<open>name\<close> and its \<^verbatim>\<open>message\<close>.
  \<^verbatim>\<open>`${error}`\<close> prints both.\<close>

datatype exn = Exn string string

fun message :: "exn \<Rightarrow> string" where
  "message (Exn n m) = m"

fun exn_text :: "exn \<Rightarrow> string" where
  "exn_text (Exn n m) = n @ '': '' @ m"

text \<open>The JSON bodies the handlers send, one constructor per shape. The two texts of the
  daily reward are kept as their interpolated numbers: \<open>DailyOk reward new_balance\<close> and
  \<open>DailyLimited hours minutes\<close> (\<^verbatim>\<open>Next reset in ${hours}h ${minutes}m.\<close>).\<close>

datatype body =
    ErrorBody string
  | TokenOk string
  | BalanceOk int
  | PayOk int
  | DepositOk int
  | WithdrawOk int int int int
  | TopOk "(string \<times> int) list"
  | MobMarked
  | MobChecked bool
  | DailyOk int int
  | DailyLimited int int

record response =
  status :: nat
  body :: body

text \<open>A value of a JSON body field; an absent field (\<^verbatim>\<open>undefined\<close>) is \<open>None\<close> at
  the use site.\<close>

datatype jsval = JNumber int | JString string | JBoolean bool | JNull

text \<open>\<^verbatim>\<open>typeof v === "number"\<close>, with the number.\<close>

fun as_number :: "jsval option \<Rightarrow> int option" where
  "as_number (Some (JNumber n)) = Some n"
| "as_number _ = None"

text \<open>\<^verbatim>\<open>!s\<close> on an optional string: \<^verbatim>\<open>undefined\<close> and the empty string are falsy.\<close>

fun falsy :: "string option \<Rightarrow> bool" where
  "falsy None = True"
| "falsy (Some s) = (s = [])"

section \<open>Storage\<close>

text \<open>
  Every statement a handler sends can fail. \<open>flt\<close> says which: \<open>flt k = Some m\<close> makes
  statement \<open>k\<close> throw the driver's error with message \<open>m\<close> and leaves the tables as they
  are. \<^verbatim>\<open>ROLLBACK\<close> in a \<^verbatim>\<open>catch\<close> block and \<^verbatim>\<open>db.connect()\<close> are taken to
  succeed.
\<close>

datatype stmt =
    Begin | SelectFunds | DebitFunds | CreditFunds | SelectReward | UpsertReward
  | Commit | InsertLog | SelectTop | UpsertUser | UpsertMob | SelectMob

type_synonym faults = "stmt \<Rightarrow> string option"

type_synonym 'a res = "(exn + 'a) \<times> world"

definition bnd :: "'a res \<Rightarrow> ('a \<Rightarrow> world \<Rightarrow> 'b res) \<Rightarrow> 'b res" where
  "bnd r f = (case r of (Inl e, w) \<Rightarrow> (Inl e, w) | (Inr a, w) \<Rightarrow> f a w)"

definition throw :: "exn \<Rightarrow> world \<Rightarrow> 'a res" where
  "throw e w = (Inl e, w)"

definition query :: "faults \<Rightarrow> stmt \<Rightarrow> (world \<Rightarrow> 'a \<times> world) \<Rightarrow> world \<Rightarrow> 'a res" where
  "query flt k run w =
     (case flt k of
        Some m \<Rightarrow> (Inl (Exn ''error'' m), w)
      | None \<Rightarrow> (case run w of (a, w') \<Rightarrow> (Inr a, w')))"

text \<open>\<^verbatim>\<open>BEGIN\<close>. Inside an open transaction PostgreSQL only warns and the transaction
  goes on, so the first snapshot stays.\<close>

definition begin_tx :: "world \<Rightarrow> unit \<times> world" where
  "begin_tx w =
     ((), (case tx_snapshot w of
             None \<Rightarrow>
               w\<lparr>tx_snapshot := Some (user_funds w, daily_rewards w, mob_limit_reached w,
                                      currency_transactions w)\<rparr>
           | Some s \<Rightarrow> w))"

definition commit_tx :: "world \<Rightarrow> unit \<times> world" where
  "commit_tx w = ((), w\<lparr>tx_snapshot := None\<rparr>)"

text \<open>\<^verbatim>\<open>ROLLBACK\<close>: the tables of the open transaction go back to the snapshot; outside
  a transaction nothing happens.\<close>

definition rollback :: "world \<Rightarrow> world" where
  "rollback w =
     (case tx_snapshot w of
        None \<Rightarrow> w
      | Some (f, d, m, l) \<Rightarrow>
          w\<lparr>user_funds := f, daily_rewards := d, mob_limit_reached := m,
            currency_transactions := l, tx_snapshot := None\<rparr>)"

text \<open>\<^verbatim>\<open>SELECT balance FROM user_funds WHERE uuid = $1 FOR UPDATE\<close>: the matching rows.\<close>

definition select_funds :: "string \<Rightarrow> world \<Rightarrow> funds_row list \<times> world" where
  "select_funds u w = (filter (\<lambda>r. uuid r = u) (user_funds w), w)"

text \<open>\<^verbatim>\<open>UPDATE user_funds SET balance = balance + $1 WHERE uuid = $2 RETURNING *\<close>:
  every matching row is updated; the result holds the updated rows
  (\<^verbatim>\<open>rowCount\<close> is their number). The debit is the same statement with \<open>- amount\<close>.\<close>

definition bump :: "int \<Rightarrow> string \<Rightarrow> funds_row \<Rightarrow> funds_row" where
  "bump delta u r = (if uuid r = u then r\<lparr>balance := balance r + delta\<rparr> else r)"

definition update_funds :: "int \<Rightarrow> string \<Rightarrow> world \<Rightarrow> funds_row list \<times> world" where
  "update_funds delta u w =
     (let rows = map (bump delta u) (user_funds w)
      in (filter (\<lambda>r. uuid r = u) rows, w\<lparr>user_funds := rows\<rparr>))"

text \<open>\<^verbatim>\<open>logger.error\<close> and friends.\<close>

definition logger :: "level \<Rightarrow> string \<Rightarrow> world \<Rightarrow> world" where
  "logger l m w = w\<lparr>logfile := logfile w @ [(l, m)]\<rparr>"

section \<open>Transaction logger\<close>

text \<open>\<^verbatim>\<open>logTransactions\<close>: one \<^verbatim>\<open>INSERT INTO currency_transactions\<close> through the pool.
  It has no \<^verbatim>\<open>try\<close>: a failing insert rejects the promise the handler awaits.\<close>

definition logTransactions :: "faults \<Rightarrow> TransactionData \<Rightarrow> world \<Rightarrow> unit res" where
  "logTransactions flt data w =
     query flt InsertLog
       (\<lambda>w. ((), w\<lparr>currency_transactions := currency_transactions w @ [data]\<rparr>)) w"

section \<open>Mutation engine\<close>

subsection \<open>POST /currency/pay\<close>

definition pay_try :: "faults \<Rightarrow> string \<Rightarrow> string \<Rightarrow> int \<Rightarrow> world \<Rightarrow> response res" where
  "pay_try flt from_uuid to_uuid amount w0 =
     bnd (query flt Begin begin_tx w0) (\<lambda>_ w.
     bnd (query flt SelectFunds (select_funds from_uuid) w) (\<lambda>senderRes w.
       case senderRes of
         [] \<Rightarrow> throw (Exn ''Error'' ''Sender not found'') w
       | sender # _ \<Rightarrow>
           let senderBalance = balance sender;
               newSenderBal = senderBalance - amount
           in if senderBalance < amount
              then throw (Exn ''Error'' ''Insufficient funds'') w
              else
     bnd (query flt DebitFunds (update_funds (- amount) from_uuid) w) (\<lambda>_ w.
     bnd (query flt CreditFunds (update_funds amount to_uuid) w) (\<lambda>recipientRes w.
       if length recipientRes = 0
       then throw (Exn ''Error'' ''Recipient not found'') w
       else
     bnd (query flt Commit commit_tx w) (\<lambda>_ w.
     bnd (logTransactions flt
            \<lparr>t_uuid = from_uuid, t_action = ''pay'', t_amount = amount,
             t_from_uuid = Some from_uuid, t_to_uuid = Some to_uuid,
             t_denomination = None, t_count = None,
             t_balance_after = Some newSenderBal\<rparr> w) (\<lambda>_ w.
       (Inr \<lparr>status = 200, body = PayOk newSenderBal\<rparr>, w)))))))"

text \<open>The handler: \<open>uid\<close> is \<^verbatim>\<open>req.user?.uuid\<close>, \<open>to_uuid\<close> and \<open>amount\<close> are the
  body fields. A \<open>to_uuid\<close> that is not a string stands for the text the driver sends
  for it.\<close>

definition pay ::
  "faults \<Rightarrow> string option \<Rightarrow> string option \<Rightarrow> jsval option \<Rightarrow> world \<Rightarrow> response \<times> world"
where
  "pay flt uid to_uuid amount w =
     (case (uid, to_uuid, as_number amount) of
        (Some from_uuid, Some to_uuid, Some amount) \<Rightarrow>
          if from_uuid = [] \<or> to_uuid = []
          then (\<lparr>status = 400, body = ErrorBody ''Invalid input''\<rparr>, w)
          else if amount \<le> 0
          then (\<lparr>status = 400, body = ErrorBody ''Amount must be positive''\<rparr>, w)
          else (case pay_try flt from_uuid to_uuid amount w of
                  (Inr r, w') \<Rightarrow> (r, w')
                | (Inl e, w') \<Rightarrow>
                    (\<lparr>status = 400, body = ErrorBody (message e)\<rparr>,
                     logger error (''/currency/pay error: '' @ exn_text e) (rollback w')))
      | _ \<Rightarrow> (\<lparr>status = 400, body = ErrorBody ''Invalid input''\<rparr>, w))"

subsection \<open>POST /currency/deposit\<close>

text \<open>The \<^verbatim>\<open>try\<close> block. When the update matches no row the handler answers 404 and
  returns from inside the block: no exception, so no \<^verbatim>\<open>catch\<close>, and no
  \<^verbatim>\<open>ROLLBACK\<close> or \<^verbatim>\<open>COMMIT\<close> is sent before the client is released.\<close>

definition deposit_try :: "faults \<Rightarrow> string \<Rightarrow> int \<Rightarrow> world \<Rightarrow> response res" where
  "deposit_try flt uid amount w0 =
     bnd (query flt Begin begin_tx w0) (\<lambda>_ w.
     bnd (query flt CreditFunds (update_funds amount uid) w) (\<lambda>result w.
       case result of
         [] \<Rightarrow> (Inr \<lparr>status = 404, body = ErrorBody ''User not found''\<rparr>, w)
       | row # _ \<Rightarrow>
           let newBalance = balance row in
     bnd (query flt Commit commit_tx w) (\<lambda>_ w.
     bnd (logTransactions flt
            \<lparr>t_uuid = uid, t_action = ''deposit'', t_amount = amount,
             t_from_uuid = None, t_to_uuid = None,
             t_denomination = None, t_count = None,
             t_balance_after = Some newBalance\<rparr> w) (\<lambda>_ w.
       (Inr \<lparr>status = 200, body = DepositOk newBalance\<rparr>, w)))))"

definition deposit ::
  "faults \<Rightarrow> string option \<Rightarrow> jsval option \<Rightarrow> world \<Rightarrow> response \<times> world"
where
  "deposit flt uid amount w =
     (case (uid, as_number amount) of
        (Some uid, Some amount) \<Rightarrow>
          if uid = [] \<or> amount \<le> 0
          then (\<lparr>status = 400, body = ErrorBody ''Invalid input''\<rparr>, w)
          else (case deposit_try flt uid amount w of
                  (Inr r, w') \<Rightarrow> (r, w')
                | (Inl e, w') \<Rightarrow>
                    (\<lparr>status = 400, body = ErrorBody (message e)\<rparr>,
                     logger error (''/currency/deposit error: '' @ exn_text e) (rollback w')))
      | _ \<Rightarrow> (\<lparr>status = 400, body = ErrorBody ''Invalid input''\<rparr>, w))"

subsection \<open>POST /currency/withdraw\<close>

text \<open>\<^verbatim>\<open>updateRes.rows[0].balance\<close> is read after \<^verbatim>\<open>COMMIT\<close>; on an empty result it
  is a \<^verbatim>\<open>TypeError\<close>.\<close>

definition withdraw_try ::
  "faults \<Rightarrow> string \<Rightarrow> int \<Rightarrow> int \<Rightarrow> int \<Rightarrow> world \<Rightarrow> response res"
where
  "withdraw_try flt uid count denom amount w0 =
     bnd (query flt Begin begin_tx w0) (\<lambda>_ w.
     bnd (query flt SelectFunds (select_funds uid) w) (\<lambda>result w.
       case result of
         [] \<Rightarrow> throw (Exn ''Error'' ''User not found'') w
       | row # _ \<Rightarrow>
           let currentBalance = balance row
           in if currentBalance < amount
              then throw (Exn ''Error'' ''Insufficient funds'') w
              else
     bnd (query flt DebitFunds (update_funds (- amount) uid) w) (\<lambda>updateRes w.
     bnd (query flt Commit commit_tx w) (\<lambda>_ w.
       case updateRes of
         [] \<Rightarrow> throw (Exn ''TypeError''
                   ''Cannot read properties of undefined (reading 'balance')'') w
       | updated # _ \<Rightarrow>
           let newBalance = balance updated in
     bnd (logTransactions flt
            \<lparr>t_uuid = uid, t_action = ''withdraw'', t_amount = amount,
             t_from_uuid = None, t_to_uuid = None,
             t_denomination = Some denom, t_count = Some count,
             t_balance_after = Some newBalance\<rparr> w) (\<lambda>_ w.
       (Inr \<lparr>status = 200, body = WithdrawOk amount newBalance denom count\<rparr>, w))))))"

text \<open>Only \<open>uid\<close> and \<open>count\<close> are validated. \<open>denom\<close> is the supplied denomination
  when it is a number, whatever its sign, and 1000 otherwise.\<close>

definition withdraw ::
  "faults \<Rightarrow> string option \<Rightarrow> jsval option \<Rightarrow> jsval option \<Rightarrow> world \<Rightarrow> response \<times> world"
where
  "withdraw flt uid count denomination w =
     (case (uid, as_number count) of
        (Some uid, Some count) \<Rightarrow>
          if uid = [] \<or> count \<le> 0
          then (\<lparr>status = 400, body = ErrorBody ''Invalid count or uuid''\<rparr>, w)
          else
            let denom = (case as_number denomination of Some d \<Rightarrow> d | None \<Rightarrow> 1000);
                amount = count * denom
            in (case withdraw_try flt uid count denom amount w of
                  (Inr r, w') \<Rightarrow> (r, w')
                | (Inl e, w') \<Rightarrow>
                    (\<lparr>status = 400, body = ErrorBody (message e)\<rparr>,
                     logger error (''/currency/withdraw error: '' @ exn_text e) (rollback w')))
      | _ \<Rightarrow> (\<lparr>status = 400, body = ErrorBody ''Invalid count or uuid''\<rparr>, w))"

subsection \<open>POST /currency/daily\<close>

text \<open>
  The date arithmetic is luxon's, in the zone \<^verbatim>\<open>Europe/Berlin\<close>; instants are
  milliseconds since the epoch. Central European time is one hour east of UTC, two hours
  while summer time is in force, and it changes at 01:00 UTC. What the time zone data
  add is the calendar of summer time: \<open>cal d\<close> says that summer time is in force from
  01:00 UTC on day \<open>d\<close> (days counted from 1970-01-01) to 01:00 UTC on the next day.
\<close>

type_synonym calendar = "int \<Rightarrow> bool"

text \<open>\<^verbatim>\<open>zone.offset(ts)\<close>, in minutes.\<close>

definition offset :: "calendar \<Rightarrow> int \<Rightarrow> int" where
  "offset cal ts = (if cal ((ts - 3600000) div 86400000) then 120 else 60)"

text \<open>The local date and time of an instant, as the timestamp that reads the same in
  UTC (luxon's \<^verbatim>\<open>objToLocalTS(this.c)\<close>).\<close>

definition localTS :: "calendar \<Rightarrow> int \<Rightarrow> int" where
  "localTS cal ts = ts + offset cal ts * 60 * 1000"

text \<open>luxon's \<^verbatim>\<open>fixOffset(localTS, o, tz)\<close>: the instant of a local date and time, found
  from a first guess \<open>o1\<close> of the offset; when the local time does not exist or exists
  twice, the third branch decides.\<close>

definition fixOffset :: "calendar \<Rightarrow> int \<Rightarrow> int \<Rightarrow> int" where
  "fixOffset cal local o1 =
     (let utcGuess = local - o1 * 60 * 1000;
          o2 = offset cal utcGuess
      in if o1 = o2 then utcGuess
         else
           let utcGuess2 = utcGuess - (o2 - o1) * 60 * 1000;
               o3 = offset cal utcGuess2
           in if o2 = o3 then utcGuess2
              else local - min o2 o3 * 60 * 1000)"

text \<open>\<^verbatim>\<open>dt.set({hour, minute, second: 0, millisecond: 0})\<close>: the local date stays, the
  local time is replaced.\<close>

definition set_clock :: "calendar \<Rightarrow> int \<Rightarrow> int \<Rightarrow> int \<Rightarrow> int" where
  "set_clock cal ts hour minute =
     fixOffset cal (localTS cal ts div 86400000 * 86400000 + hour * 3600000 + minute * 60000)
       (offset cal ts)"

text \<open>\<^verbatim>\<open>dt.plus({days: n})\<close>, and \<^verbatim>\<open>dt.minus({days: n})\<close> with \<open>- n\<close>: the local
  date moves by \<open>n\<close> calendar days, the local time stays.\<close>

definition plus_days :: "calendar \<Rightarrow> int \<Rightarrow> int \<Rightarrow> int" where
  "plus_days cal ts n = fixOffset cal (localTS cal ts + n * 86400000) (offset cal ts)"

definition DAILY_REWARD_AMOUNT :: int where
  "DAILY_REWARD_AMOUNT = 50"

definition getLastReset :: "calendar \<Rightarrow> int \<Rightarrow> int" where
  "getLastReset tz current =
     (let resetTime = set_clock tz current 6 30
      in if current < resetTime then plus_days tz resetTime (- 1) else resetTime)"

text \<open>\<^verbatim>\<open>later.diff(earlier, ["hours", "minutes"])\<close> followed by \<^verbatim>\<open>Math.floor\<close> of each
  part. luxon splits the elapsed milliseconds into whole hours and the remaining
  (fractional) minutes, and negates both parts when \<open>later\<close> is the earlier instant.\<close>

definition diff_hours_minutes :: "int \<Rightarrow> int \<Rightarrow> int \<times> int" where
  "diff_hours_minutes later earlier =
     (let ms = later - earlier
      in if 0 \<le> ms
         then (ms div 3600000, (ms mod 3600000) div 60000)
         else (- ((- ms) div 3600000), (- ((- ms) mod 3600000)) div 60000))"

text \<open>\<^verbatim>\<open>SELECT last_claim_at FROM daily_rewards WHERE uuid = $1 FOR UPDATE\<close>.\<close>

definition select_reward :: "string \<Rightarrow> world \<Rightarrow> int option option \<times> world" where
  "select_reward u w = (daily_rewards w u, w)"

text \<open>\<^verbatim>\<open>INSERT INTO daily_rewards ... ON CONFLICT (uuid) DO UPDATE\<close>.\<close>

definition upsert_reward :: "string \<Rightarrow> int \<Rightarrow> world \<Rightarrow> unit \<times> world" where
  "upsert_reward u t w = ((), w\<lparr>daily_rewards := (daily_rewards w)(u \<mapsto> Some t)\<rparr>)"

text \<open>The \<^verbatim>\<open>try\<close> block. The two early answers (404, 429) send \<^verbatim>\<open>ROLLBACK\<close>
  themselves. After \<^verbatim>\<open>COMMIT\<close> the handler answers; it does not call
  \<^verbatim>\<open>logTransactions\<close>.\<close>

definition daily_try :: "faults \<Rightarrow> calendar \<Rightarrow> int \<Rightarrow> string \<Rightarrow> world \<Rightarrow> response res" where
  "daily_try flt tz now uid w0 =
     (let lastReset = getLastReset tz now in
     bnd (query flt Begin begin_tx w0) (\<lambda>_ w.
     bnd (query flt SelectFunds (select_funds uid) w) (\<lambda>userRes w.
       case userRes of
         [] \<Rightarrow> (Inr \<lparr>status = 404, body = ErrorBody ''User not found.''\<rparr>, rollback w)
       | user # _ \<Rightarrow>
           let currentBal = balance user in
     bnd (query flt SelectReward (select_reward uid) w) (\<lambda>rewardRes w.
       let alreadyClaimed =
             (case rewardRes of
                None \<Rightarrow> False
              | Some None \<Rightarrow> False
              | Some (Some lastClaim) \<Rightarrow> lastClaim \<ge> lastReset)
       in if alreadyClaimed
          then
            let nextReset = plus_days tz lastReset 1;
                (hours, minutes) = diff_hours_minutes nextReset now
            in (Inr \<lparr>status = 429, body = DailyLimited hours minutes\<rparr>, rollback w)
          else
     bnd (query flt CreditFunds (update_funds DAILY_REWARD_AMOUNT uid) w) (\<lambda>_ w.
     bnd (query flt UpsertReward (upsert_reward uid now) w) (\<lambda>_ w.
     bnd (query flt Commit commit_tx w) (\<lambda>_ w.
       let newBalance = currentBal + DAILY_REWARD_AMOUNT
       in (Inr \<lparr>status = 200, body = DailyOk DAILY_REWARD_AMOUNT newBalance\<rparr>, w))))))))"

definition daily ::
  "faults \<Rightarrow> calendar \<Rightarrow> int \<Rightarrow> string option \<Rightarrow> world \<Rightarrow> response \<times> world"
where
  "daily flt tz now uid w =
     (case uid of
        None \<Rightarrow> (\<lparr>status = 400, body = ErrorBody ''Missing uuid''\<rparr>, w)
      | Some uid \<Rightarrow>
          if uid = []
          then (\<lparr>status = 400, body = ErrorBody ''Missing uuid''\<rparr>, w)
          else (case daily_try flt tz now uid w of
                  (Inr r, w') \<Rightarrow> (r, w')
                | (Inl e, w') \<Rightarrow>
                    (\<lparr>status = 500,
                      body = ErrorBody ''Something went wrong while claiming your daily reward.''\<rparr>,
                     logger error (''/currency/daily error: '' @ exn_text e) (rollback w'))))"

section \<open>Read paths, login and mob limit\<close>

text \<open>
  These handlers send their one statement through the pool (\<^verbatim>\<open>db.query\<close>). It runs on
  the pooled client: it sees what that client sees, and when the client was released with
  a transaction open, what the statement writes belongs to that transaction and goes with
  a later \<^verbatim>\<open>ROLLBACK\<close>.
\<close>

text \<open>\<^verbatim>\<open>GET /currency/balance\<close>.\<close>

definition get_balance :: "faults \<Rightarrow> string option \<Rightarrow> world \<Rightarrow> response \<times> world" where
  "get_balance flt uid w =
     (case uid of
        None \<Rightarrow> (\<lparr>status = 400, body = ErrorBody ''Missing uuid''\<rparr>, w)
      | Some uid \<Rightarrow>
          if uid = []
          then (\<lparr>status = 400, body = ErrorBody ''Missing uuid''\<rparr>, w)
          else (case query flt SelectFunds
                       (\<lambda>w. (take 1 (filter (\<lambda>r. uuid r = uid) (user_funds w)), w)) w of
                  (Inr [], w') \<Rightarrow> (\<lparr>status = 404, body = ErrorBody ''Player not found''\<rparr>, w')
                | (Inr (row # _), w') \<Rightarrow> (\<lparr>status = 200, body = BalanceOk (balance row)\<rparr>, w')
                | (Inl e, w') \<Rightarrow>
                    (\<lparr>status = 500, body = ErrorBody ''Internal server error''\<rparr>,
                     logger error (''/currency/balance error: '' @ exn_text e) w')))"

text \<open>\<^verbatim>\<open>GET /currency/top\<close>:
  \<^verbatim>\<open>SELECT name, balance FROM user_funds ORDER BY balance DESC LIMIT 10\<close>. SQL leaves
  the order of rows with equal balances open; the model keeps them in table order.\<close>

definition select_top :: "world \<Rightarrow> funds_row list \<times> world" where
  "select_top w = (take 10 (sort_key (\<lambda>r. - balance r) (user_funds w)), w)"

definition top :: "faults \<Rightarrow> world \<Rightarrow> response \<times> world" where
  "top flt w =
     (case query flt SelectTop select_top w of
        (Inr rows, w') \<Rightarrow>
          (\<lparr>status = 200, body = TopOk (map (\<lambda>r. (name r, balance r)) rows)\<rparr>, w')
      | (Inl e, w') \<Rightarrow>
          (\<lparr>status = 500, body = ErrorBody ''Internal server error''\<rparr>,
           logger error (''/currency/top error: '' @ exn_text e) w'))"

text \<open>\<^verbatim>\<open>POST /currency/login\<close>. \<open>sign uuid name secret\<close> is
  \<^verbatim>\<open>jwt.sign({ uuid, name }, secret, { expiresIn: "10m" })\<close>.\<close>

definition upsert_user :: "string \<Rightarrow> string \<Rightarrow> funds_row list \<Rightarrow> funds_row list" where
  "upsert_user u n rows =
     (if u \<in> set (map uuid rows)
      then map (\<lambda>r. if uuid r = u then r\<lparr>name := n\<rparr> else r) rows
      else rows @ [\<lparr>uuid = u, name = n, balance = 0\<rparr>])"

definition login ::
  "faults \<Rightarrow> (string \<Rightarrow> string \<Rightarrow> string \<Rightarrow> string) \<Rightarrow> string option \<Rightarrow>
   string option \<Rightarrow> string option \<Rightarrow> world \<Rightarrow> response \<times> world"
where
  "login flt sign secret b_uuid b_name w =
     (case (b_uuid, b_name) of
        (Some u, Some n) \<Rightarrow>
          if u = [] \<or> n = []
          then (\<lparr>status = 400, body = ErrorBody ''Missing uuid or name''\<rparr>, w)
          else (case bnd (query flt UpsertUser (\<lambda>w. ((), w\<lparr>user_funds := upsert_user u n (user_funds w)\<rparr>)) w)
                       (\<lambda>_ w. case secret of
                                 None \<Rightarrow> throw (Exn ''Error'' ''JWT_SECRET is not defined'') w
                               | Some sec \<Rightarrow>
                                   if sec = []
                                   then throw (Exn ''Error'' ''JWT_SECRET is not defined'') w
                                   else (Inr (sign u n sec), w)) of
                  (Inr token, w') \<Rightarrow> (\<lparr>status = 200, body = TokenOk token\<rparr>, w')
                | (Inl e, w') \<Rightarrow>
                    (\<lparr>status = 500, body = ErrorBody ''Internal server error''\<rparr>,
                     logger error (''/currency/login error: '' @ exn_text e) w'))
      | _ \<Rightarrow> (\<lparr>status = 400, body = ErrorBody ''Missing uuid or name''\<rparr>, w))"

text \<open>\<^verbatim>\<open>POST\<close> and \<^verbatim>\<open>GET /currency/mob-limit\<close>; \<open>today\<close> is the database's
  \<^verbatim>\<open>CURRENT_DATE\<close>.\<close>

definition mob_limit_mark :: "faults \<Rightarrow> int \<Rightarrow> string option \<Rightarrow> world \<Rightarrow> response \<times> world" where
  "mob_limit_mark flt today uid w =
     (case uid of
        None \<Rightarrow> (\<lparr>status = 400, body = ErrorBody ''Missing uuid''\<rparr>, w)
      | Some uid \<Rightarrow>
          if uid = []
          then (\<lparr>status = 400, body = ErrorBody ''Missing uuid''\<rparr>, w)
          else (case query flt UpsertMob
                       (\<lambda>w. ((), w\<lparr>mob_limit_reached := (mob_limit_reached w)(uid \<mapsto> today)\<rparr>)) w of
                  (Inr _, w') \<Rightarrow> (\<lparr>status = 200, body = MobMarked\<rparr>, w')
                | (Inl e, w') \<Rightarrow>
                    (\<lparr>status = 500, body = ErrorBody ''Internal server error''\<rparr>,
                     logger error (''/currency/mob-limit error: '' @ exn_text e) w')))"

definition mob_limit_check :: "faults \<Rightarrow> int \<Rightarrow> string option \<Rightarrow> world \<Rightarrow> response \<times> world" where
  "mob_limit_check flt today uid w =
     (case uid of
        None \<Rightarrow> (\<lparr>status = 400, body = ErrorBody ''Missing uuid''\<rparr>, w)
      | Some uid \<Rightarrow>
          if uid = []
          then (\<lparr>status = 400, body = ErrorBody ''Missing uuid''\<rparr>, w)
          else (case query flt SelectMob
                       (\<lambda>w. (mob_limit_reached w uid = Some today, w)) w of
                  (Inr limitReached, w') \<Rightarrow>
                    (\<lparr>status = 200, body = MobChecked limitReached\<rparr>,
                     logger info ''Checked limit reached'' w')
                | (Inl e, w') \<Rightarrow>
                    (\<lparr>status = 500, body = ErrorBody ''Internal server error''\<rparr>,
                     logger error (''/currency/mob-limit GET error: '' @ exn_text e) w')))"

section \<open>Identity and access gate\<close>

subsection \<open>String helpers of JavaScript\<close>

definition starts_with :: "string \<Rightarrow> string \<Rightarrow> bool" where
  "starts_with p s = (take (length p) s = p)"

text \<open>\<^verbatim>\<open>s.replace(pat, "")\<close> with a string pattern: the first occurrence goes.\<close>

fun remove_first :: "string \<Rightarrow> string \<Rightarrow> string" where
  "remove_first pat [] = []"
| "remove_first pat (c # cs) =
     (if starts_with pat (c # cs) then drop (length pat) (c # cs)
      else c # remove_first pat cs)"


text \<open>\<^verbatim>\<open>s.split(sep)\<close> for a one-character separator.\<close>

fun split_on :: "char \<Rightarrow> string \<Rightarrow> string list" where
  "split_on sep [] = [[]]"
| "split_on sep (c # cs) =
     (if c = sep then [] # split_on sep cs
      else (case split_on sep cs of
              [] \<Rightarrow> [[c]]
            | x # xs \<Rightarrow> (c # x) # xs))"

text \<open>\<^verbatim>\<open>xs[i]\<close>: \<^verbatim>\<open>undefined\<close> out of range.\<close>

fun index :: "'a list \<Rightarrow> nat \<Rightarrow> 'a option" where
  "index [] i = None"
| "index (x # xs) 0 = Some x"
| "index (x # xs) (Suc i) = index xs i"

text \<open>The white space \<^verbatim>\<open>trim\<close> strips, among the characters a header can hold
  (one byte each): tab, line feed, vertical tab, form feed, carriage return, space and
  the no-break space.\<close>

definition is_space :: "char \<Rightarrow> bool" where
  "is_space c = (c \<in> set [CHR 0x09, CHR 0x0A, CHR 0x0B, CHR 0x0C, CHR 0x0D, CHR 0x20, CHR 0xA0])"

definition trim :: "string \<Rightarrow> string" where
  "trim s = rev (dropWhile is_space (rev (dropWhile is_space s)))"

subsection \<open>verifyJWT\<close>

text \<open>
  \<open>verify token secret\<close> is \<^verbatim>\<open>jwt.verify(token, secret)\<close>: \<open>None\<close> when it throws
  (bad signature, expired), otherwise \<open>Some\<close> of the \<^verbatim>\<open>uuid\<close> property of the decoded
  payload, the only part of \<^verbatim>\<open>req.user\<close> a handler reads. The result is either the
  answer of the gate or \<^verbatim>\<open>next()\<close> with \<^verbatim>\<open>req.user?.uuid\<close>.
\<close>

definition verifyJWT ::
  "(string \<Rightarrow> string \<Rightarrow> string option option) \<Rightarrow> string option \<Rightarrow> string option \<Rightarrow>
   response + string option"
where
  "verifyJWT verify secret authHeader =
     (case authHeader of
        None \<Rightarrow> Inl \<lparr>status = 401, body = ErrorBody ''Missing Authorization header''\<rparr>
      | Some h \<Rightarrow>
          if h = []
          then Inl \<lparr>status = 401, body = ErrorBody ''Missing Authorization header''\<rparr>
          else (case index (split_on CHR '' '' h) 1 of
                  None \<Rightarrow> Inl \<lparr>status = 401, body = ErrorBody ''Invalid Authorization format''\<rparr>
                | Some token \<Rightarrow>
                    if token = []
                    then Inl \<lparr>status = 401, body = ErrorBody ''Invalid Authorization format''\<rparr>
                    else (case secret of
                            None \<Rightarrow>
                              Inl \<lparr>status = 403, body = ErrorBody ''Invalid or expired token''\<rparr>
                          | Some sec \<Rightarrow>
                              if sec = []
                              then Inl \<lparr>status = 403, body = ErrorBody ''Invalid or expired token''\<rparr>
                              else (case verify token sec of
                                      None \<Rightarrow>
                                        Inl \<lparr>status = 403,
                                             body = ErrorBody ''Invalid or expired token''\<rparr>
                                    | Some decoded \<Rightarrow> Inr decoded))))"

subsection \<open>verifyIP\<close>

definition normalizeIp :: "string \<Rightarrow> string" where
  "normalizeIp rawIp =
     trim (case index (split_on CHR '','' (remove_first ''::ffff:'' rawIp)) 0 of
             Some x \<Rightarrow> x | None \<Rightarrow> [])"

text \<open>\<^verbatim>\<open>[allowedIp, allowedIpLocal].filter(Boolean)\<close>.\<close>

definition allowed :: "string option \<Rightarrow> string option \<Rightarrow> string list" where
  "allowed allowedIp allowedIpLocal =
     concat (map (\<lambda>x. case x of None \<Rightarrow> [] | Some s \<Rightarrow> if s = [] then [] else [s])
                 [allowedIp, allowedIpLocal])"

text \<open>\<open>xff\<close> is the \<^verbatim>\<open>x-forwarded-for\<close> header, \<open>remoteAddress\<close> the socket's address.
  \<^verbatim>\<open>??\<close> falls back to the socket only when the header is absent; \<^verbatim>\<open>|| ""\<close> then
  turns an absent or empty value into the empty string. \<open>Inr ()\<close> is \<^verbatim>\<open>next()\<close>.\<close>

definition verifyIP ::
  "string option \<Rightarrow> string option \<Rightarrow> string option \<Rightarrow> string option \<Rightarrow> world \<Rightarrow>
   (response + unit) \<times> world"
where
  "verifyIP allowedIp allowedIpLocal xff remoteAddress w =
     (let rawIp = (case xff of Some h \<Rightarrow> Some h | None \<Rightarrow> remoteAddress);
          normalizedIp = normalizeIp (case rawIp of Some s \<Rightarrow> s | None \<Rightarrow> [])
      in if normalizedIp \<in> set (allowed allowedIp allowedIpLocal)
         then (Inr (), w)
         else (Inl \<lparr>status = 403, body = ErrorBody ''Forbidden: Your IP is not allowed.''\<rparr>,
               logger warn (''Blocked request from IP: '' @ normalizedIp) w))"

section \<open>Router\<close>

text \<open>
  \<^verbatim>\<open>currencyRoutes\<close> registers its layers in this order; Express runs a request through
  them first to last. A route layer answers when verb and path match; a
  \<^verbatim>\<open>router.use("/currency", mw)\<close> layer runs on every path under \<^verbatim>\<open>/currency\<close> and
  either answers or calls \<^verbatim>\<open>next()\<close>. Paths are relative to the \<^verbatim>\<open>/api\<close> mount.
\<close>

datatype verb = GET | POST

datatype endpoint =
  Login | Balance | Pay | Deposit | Withdraw | Top | MobLimitMark | MobLimitCheck | Daily

datatype middleware = VerifyJWT | VerifyIP

datatype layer = Route verb string endpoint | Use string middleware

definition layers :: "layer list" where
  "layers =
     [Route POST ''/currency/login'' Login,
      Use ''/currency'' VerifyJWT,
      Use ''/currency'' VerifyIP,
      Route GET ''/currency/balance'' Balance,
      Route POST ''/currency/pay'' Pay,
      Route POST ''/currency/deposit'' Deposit,
      Route POST ''/currency/withdraw'' Withdraw,
      Route GET ''/currency/top'' Top,
      Route POST ''/currency/mob-limit'' MobLimitMark,
      Route GET ''/currency/mob-limit'' MobLimitCheck,
      Route POST ''/currency/daily'' Daily]"

text \<open>A request: verb, path, the two headers the gates read, the socket's address and
  the fields of the JSON body the handlers read.\<close>

record request =
  verb :: verb
  path :: string
  authorization :: "string option"
  x_forwarded_for :: "string option"
  remoteAddress :: "string option"
  b_uuid :: "string option"
  b_name :: "string option"
  b_to_uuid :: "string option"
  b_amount :: "jsval option"
  b_count :: "jsval option"
  b_denomination :: "jsval option"

text \<open>What surrounds a request: the environment variables, the two functions of
  \<^verbatim>\<open>jsonwebtoken\<close>, the calendar of summer time, the clocks and the storage faults.\<close>

record ctx =
  JWT_SECRET :: "string option"
  ALLOWED_IP_ADDRESS :: "string option"
  ALLOWED_IP_ADDRESS_LOCAL :: "string option"
  jwt_sign :: "string \<Rightarrow> string \<Rightarrow> string \<Rightarrow> string"
  jwt_verify :: "string \<Rightarrow> string \<Rightarrow> string option option"
  zone_of :: calendar
  clock_now :: int
  current_date :: int
  storage_faults :: faults

fun run_endpoint ::
  "ctx \<Rightarrow> endpoint \<Rightarrow> request \<Rightarrow> string option \<Rightarrow> world \<Rightarrow> response \<times> world"
where
  "run_endpoint c Login req usr w = login (storage_faults c) (jwt_sign c) (JWT_SECRET c) (b_uuid req) (b_name req) w"
| "run_endpoint c Balance req usr w = get_balance (storage_faults c) usr w"
| "run_endpoint c Pay req usr w = pay (storage_faults c) usr (b_to_uuid req) (b_amount req) w"
| "run_endpoint c Deposit req usr w = deposit (storage_faults c) usr (b_amount req) w"
| "run_endpoint c Withdraw req usr w = withdraw (storage_faults c) usr (b_count req) (b_denomination req) w"
| "run_endpoint c Top req usr w = top (storage_faults c) w"
| "run_endpoint c MobLimitMark req usr w = mob_limit_mark (storage_faults c) (current_date c) usr w"
| "run_endpoint c MobLimitCheck req usr w = mob_limit_check (storage_faults c) (current_date c) usr w"
| "run_endpoint c Daily req usr w = daily (storage_faults c) (zone_of c) (clock_now c) usr w"

definition mounted_under :: "string \<Rightarrow> string \<Rightarrow> bool" where
  "mounted_under p s = (s = p \<or> starts_with (p @ ''/'') s)"

text \<open>\<open>usr\<close> is \<^verbatim>\<open>req.user?.uuid\<close>, set by \<^verbatim>\<open>verifyJWT\<close>. A request no layer answers
  gets the framework's 404.\<close>

fun dispatch ::
  "layer list \<Rightarrow> ctx \<Rightarrow> request \<Rightarrow> string option \<Rightarrow> world \<Rightarrow> response \<times> world"
where
  "dispatch [] c req usr w = (\<lparr>status = 404, body = ErrorBody ''Not Found''\<rparr>, w)"
| "dispatch (Route m p e # ls) c req usr w =
     (if verb req = m \<and> path req = p then run_endpoint c e req usr w
      else dispatch ls c req usr w)"
| "dispatch (Use p VerifyJWT # ls) c req usr w =
     (if mounted_under p (path req)
      then (case verifyJWT (jwt_verify c) (JWT_SECRET c) (authorization req) of
              Inl r \<Rightarrow> (r, w)
            | Inr decoded \<Rightarrow> dispatch ls c req decoded w)
      else dispatch ls c req usr w)"
| "dispatch (Use p VerifyIP # ls) c req usr w =
     (if mounted_under p (path req)
      then (case verifyIP (ALLOWED_IP_ADDRESS c) (ALLOWED_IP_ADDRESS_LOCAL c)
                          (x_forwarded_for req) (remoteAddress req) w of
              (Inl r, w') \<Rightarrow> (r, w')
            | (Inr _, w') \<Rightarrow> dispatch ls c req usr w')
      else dispatch ls c req usr w)"

definition currencyRoutes :: "ctx \<Rightarrow> request \<Rightarrow> world \<Rightarrow> response \<times> world" where
  "currencyRoutes c req w = dispatch layers c req None w"

text \<open>Requests served one after the other, each in its own context.\<close>

fun serve :: "(ctx \<times> request) list \<Rightarrow> world \<Rightarrow> world" where
  "serve [] w = w"
| "serve ((c, req) # rs) w = serve rs (snd (currencyRoutes c req w))"

section \<open>Invariants of the store\<close>

text \<open>\<open>good\<close>: \<^verbatim>\<open>uuid\<close> is the key of \<^verbatim>\<open>user_funds\<close> (the login's
  \<^verbatim>\<open>ON CONFLICT (uuid)\<close> needs the unique index) and no balance is negative.\<close>

definition good :: "funds_row list \<Rightarrow> bool" where
  "good rows = (distinct (map uuid rows) \<and> (\<forall>r \<in> set rows. 0 \<le> balance r))"

text \<open>\<open>quiescent\<close>: the pooled client's transaction, if one was left open, holds no
  change of \<^verbatim>\<open>user_funds\<close> or \<^verbatim>\<open>daily_rewards\<close>.\<close>

definition quiescent :: "world \<Rightarrow> bool" where
  "quiescent w =
     (case tx_snapshot w of
        None \<Rightarrow> True
      | Some (f, d, m, l) \<Rightarrow> f = user_funds w \<and> d = daily_rewards w)"

text \<open>\<open>mid\<close>: the tables are good, and so is what a rollback would restore.\<close>

definition mid :: "world \<Rightarrow> bool" where
  "mid w =
     (good (user_funds w)
      \<and> (case tx_snapshot w of None \<Rightarrow> True | Some (f, d, m, l) \<Rightarrow> good f))"

section \<open>The calendar\<close>

text \<open>The local day and the local time of day (in milliseconds) of an instant.\<close>

definition local_day :: "calendar \<Rightarrow> int \<Rightarrow> int" where
  "local_day cal ts = localTS cal ts div 86400000"

definition local_clock :: "calendar \<Rightarrow> int \<Rightarrow> int" where
  "local_clock cal ts = localTS cal ts mod 86400000"

text \<open>The offset in force on the morning of day \<open>d\<close>, and the instant at which the
  local clock reads 06:30 on local day \<open>d\<close>.\<close>

definition saving :: "calendar \<Rightarrow> int \<Rightarrow> int" where
  "saving cal d = (if cal d then 120 else 60)"

definition reset_of :: "calendar \<Rightarrow> int \<Rightarrow> int" where
  "reset_of cal d = d * 86400000 + 23400000 - saving cal d * 60000"

text \<open>
  The calendar of \<^verbatim>\<open>Europe/Berlin\<close> under the rule in force since 1996: summer time
  from the last Sunday of March to the last Sunday of October. \<open>year_of_day\<close> is the
  civil year of a day number, \<open>first_of_march y\<close> the day number of 1 March of year
  \<open>y\<close>, and \<open>last_sunday y n\<close> the last Sunday not after the day \<open>n\<close> days later
  (31 March is 30 days later, 31 October 244; day 0 was a Thursday).
\<close>

definition year_of_day :: "int \<Rightarrow> int" where
  "year_of_day d =
     (let z = d + 719468;
          era = z div 146097;
          doe = z - era * 146097;
          yoe = (doe - doe div 1460 + doe div 36524 - doe div 146096) div 365;
          doy = doe - (365 * yoe + yoe div 4 - yoe div 100);
          mp = (5 * doy + 2) div 153
      in yoe + era * 400 + (if mp < 10 then 0 else 1))"

definition first_of_march :: "int \<Rightarrow> int" where
  "first_of_march y =
     (let era = y div 400; yoe = y - era * 400
      in era * 146097 + (yoe * 365 + yoe div 4 - yoe div 100) - 719468)"

definition last_sunday :: "int \<Rightarrow> int \<Rightarrow> int" where
  "last_sunday y n = (let d = first_of_march y + n in d - (d + 4) mod 7)"

definition europe_berlin :: calendar where
  "europe_berlin d =
     (let y = year_of_day d in last_sunday y 30 \<le> d \<and> d < last_sunday y 244)"

section \<open>Concrete inputs\<close>

text \<open>A store with two accounts and nothing else, and a run without storage faults.\<close>

definition alice_and_bob :: world where
  "alice_and_bob =
     \<lparr>user_funds = [\<lparr>uuid = ''u1'', name = ''Alice'', balance = 100\<rparr>,
                    \<lparr>uuid = ''u2'', name = ''Bob'', balance = 5\<rparr>],
      daily_rewards = Map.empty, mob_limit_reached = Map.empty,
      currency_transactions = [], tx_snapshot = None, logfile = []\<rparr>"

definition no_faults :: faults where
  "no_faults = (\<lambda>k. None)"

text \<open>A deployment: a secret, two allow-listed addresses, and a token format that
  stands in for \<^verbatim>\<open>jsonwebtoken\<close> (the token of \<open>u\<close> under secret \<open>s\<close> is \<open>s:u\<close>).\<close>

definition demo_ctx :: ctx where
  "demo_ctx =
     \<lparr>JWT_SECRET = Some ''k'',
      ALLOWED_IP_ADDRESS = Some ''10.0.0.1'',
      ALLOWED_IP_ADDRESS_LOCAL = Some ''127.0.0.1'',
      jwt_sign = (\<lambda>u n s. s @ '':'' @ u),
      jwt_verify = (\<lambda>t s. if take (length s + 1) t = s @ '':''
                            then Some (Some (drop (length s + 1) t)) else None),
      zone_of = europe_berlin,
      clock_now = 1000000000000,
      current_date = 11574,
      storage_faults = no_faults\<rparr>"

text \<open>A request with no headers and an empty body, from a socket that is not
  allow-listed; and the same request sent by Alice from an allow-listed socket.\<close>

definition anonymous :: "verb \<Rightarrow> string \<Rightarrow> request" where
  "anonymous v p =
     \<lparr>verb = v, path = p, authorization = None, x_forwarded_for = None,
      remoteAddress = Some ''203.0.113.7'',
      b_uuid = None, b_name = None, b_to_uuid = None, b_amount = None, b_count = None,
      b_denomination = None\<rparr>"

definition from_alice :: "verb \<Rightarrow> string \<Rightarrow> request" where
  "from_alice v p =
     (anonymous v p)\<lparr>authorization := Some ''Bearer k:u1'',
                     remoteAddress := Some ''::ffff:10.0.0.1''\<rparr>"

text \<open>Four requests of Alice: a withdraw of 3 bills of 20, a pay of 500 she cannot
  afford, a pay of 15 to Bob, and her daily reward.\<close>

definition busy_day :: "(ctx \<times> request) list" where
  "busy_day =
     [(demo_ctx, (from_alice POST ''/currency/withdraw'')
                   \<lparr>b_count := Some (JNumber 3), b_denomination := Some (JNumber 20)\<rparr>),
      (demo_ctx, (from_alice POST ''/currency/pay'')
                   \<lparr>b_to_uuid := Some ''u2'', b_amount := Some (JNumber 500)\<rparr>),
      (demo_ctx, (from_alice POST ''/currency/pay'')
                   \<lparr>b_to_uuid := Some ''u2'', b_amount := Some (JNumber 15)\<rparr>),
      (demo_ctx, from_alice POST ''/currency/daily'')]"

text \<open>The same store after Alice claimed her reward at instant 1000000000000
  (2001-09-09, 03:46:40 local time, in summer).\<close>

definition alice_claimed :: world where
  "alice_claimed = alice_and_bob\<lparr>daily_rewards := [''u1'' \<mapsto> Some 1000000000000]\<rparr>"

text \<open>A run in which only the insert into \<^verbatim>\<open>currency_transactions\<close> fails.\<close>

definition log_down :: faults where
  "log_down = (\<lambda>k. if k = InsertLog then Some ''connection terminated'' else None)"

section \<open>Properties\<close>

lemmas handler_defs =
  bnd_def throw_def query_def begin_tx_def commit_tx_def rollback_def select_funds_def
  update_funds_def logger_def logTransactions_def Let_def

lemmas route_defs =
  currencyRoutes_def layers_def mounted_under_def starts_with_def verifyJWT_def verifyIP_def
  normalizeIp_def allowed_def trim_def is_space_def demo_ctx_def from_alice_def anonymous_def

subsection \<open>Rows and updates\<close>

lemma uuid_bump [simp]: "uuid (bump d u r) = uuid r"
  by (simp add: bump_def)

lemma map_uuid_bump [simp]: "map uuid (map (bump d u) rows) = map uuid rows"
  by (induction rows) simp_all

lemma filter_bump:
  "filter (\<lambda>r. uuid r = v) (map (bump d u) rows) = map (bump d u) (filter (\<lambda>r. uuid r = v) rows)"
  by (induction rows) simp_all

lemma bump_undo [simp]: "bump d u (bump (- d) u r) = r"
  by (simp add: bump_def)

lemma bump_comp_undo [simp]: "bump d u \<circ> bump (- d) u = id"
  by (rule ext) simp

lemma uuid_comp_bump [simp]: "uuid \<circ> bump d u = uuid"
  by (rule ext) simp

lemma filter_uuid_map:
  assumes "\<And>r. uuid (g r) = uuid r"
  shows "filter (\<lambda>r. uuid r = v) (map g rows) = map g (filter (\<lambda>r. uuid r = v) rows)"
  by (induction rows) (simp_all add: assms)

lemma map_bump_absent:
  "filter (\<lambda>r. uuid r = u) rows = [] \<Longrightarrow> map (bump d u) rows = rows"
  by (induction rows) (auto simp: bump_def split: if_splits)

subsection \<open>The daily reward and the transaction log\<close>

text \<open>The daily handler never writes to \<^verbatim>\<open>currency_transactions\<close>: when no
  transaction was left open, the log after the request is the log before it, whatever
  the request and the outcome.\<close>

lemma daily_never_logs:
  "tx_snapshot w = None \<Longrightarrow>
     currency_transactions (snd (daily f z t uid w)) = currency_transactions w"
  by (simp add: daily_def daily_try_def handler_defs select_reward_def upsert_reward_def
      split: option.splits list.splits prod.splits sum.splits if_splits)

text \<open>
  C1 asks for exactly one record with action \<^verbatim>\<open>daily\<close> after a successful claim. On
  the code the claim of an eligible account (Alice, balance 100, no earlier claim)
  succeeds, the balance becomes 150, and the transaction log is as empty as before:
  the handler answers after \<^verbatim>\<open>COMMIT\<close> without calling \<^verbatim>\<open>logTransactions\<close>,
  which pay, deposit and withdraw all call at that point.
\<close>

theorem daily_claim_leaves_log_empty:
  "fst (daily no_faults europe_berlin 1000000000000 (Some ''u1'') alice_and_bob)
     = \<lparr>status = 200, body = DailyOk 50 150\<rparr>
   \<and> map balance (user_funds (snd (daily no_faults europe_berlin 1000000000000 (Some ''u1'')
                                     alice_and_bob)))
     = [150, 5]
   \<and> currency_transactions (snd (daily no_faults europe_berlin 1000000000000 (Some ''u1'')
                                     alice_and_bob))
     = []"
  by (simp add: daily_def daily_try_def handler_defs select_reward_def upsert_reward_def
      getLastReset_def DAILY_REWARD_AMOUNT_def alice_and_bob_def no_faults_def europe_berlin_def
      bump_def)

subsection \<open>Input validation of withdraw\<close>

text \<open>
  C2 asks that a withdraw whose denomination is not positive be rejected with status 400
  before storage is touched. On the code a withdraw of one bill of denomination \<open>-5\<close>
  from Alice's 100 is accepted: the amount is \<open>-5\<close>, the funds check passes, and the
  debit of \<open>-5\<close> raises the stored balance to 105. Only \<open>count\<close> is validated; pay and
  deposit reject a non-positive amount.
\<close>

theorem withdraw_negative_denomination_credits:
  "fst (withdraw no_faults (Some ''u1'') (Some (JNumber 1)) (Some (JNumber (- 5))) alice_and_bob)
     = \<lparr>status = 200, body = WithdrawOk (- 5) 105 (- 5) 1\<rparr>
   \<and> map balance (user_funds (snd (withdraw no_faults (Some ''u1'') (Some (JNumber 1))
                                     (Some (JNumber (- 5))) alice_and_bob)))
     = [105, 5]"
  by (simp add: withdraw_def withdraw_try_def handler_defs alice_and_bob_def no_faults_def
      bump_def)

subsection \<open>Failures before commit\<close>

text \<open>
  C3 asks that every failure before commit roll the transaction back, deposit on a
  nonexistent account included. On the code that deposit answers 404 from inside the
  \<^verbatim>\<open>try\<close> block and sends neither \<^verbatim>\<open>ROLLBACK\<close> nor \<^verbatim>\<open>COMMIT\<close>: the client goes
  back to the pool with its transaction still open. The balances are untouched, since
  the update matched no row.
\<close>

theorem deposit_unknown_account_leaves_transaction_open:
  "fst (deposit no_faults (Some ''nobody'') (Some (JNumber 30)) alice_and_bob)
     = \<lparr>status = 404, body = ErrorBody ''User not found''\<rparr>
   \<and> tx_snapshot (snd (deposit no_faults (Some ''nobody'') (Some (JNumber 30)) alice_and_bob))
     \<noteq> None
   \<and> user_funds (snd (deposit no_faults (Some ''nobody'') (Some (JNumber 30)) alice_and_bob))
     = user_funds alice_and_bob"
  by (simp add: deposit_def deposit_try_def handler_defs alice_and_bob_def no_faults_def
      bump_def)

text \<open>
  Everywhere else a failure before commit is undone. From a \<open>quiescent\<close> store and
  with a working log insert, an answer other than 200 of pay, withdraw or claim-daily
  leaves \<^verbatim>\<open>user_funds\<close> and \<^verbatim>\<open>daily_rewards\<close> as they were, and the transaction
  closed (or never begun, when the input was rejected). A deposit leaves the two tables
  as they were too, but its 404 leaves the transaction open.
\<close>

lemma quiescent_cases:
  assumes "quiescent w"
  obtains "tx_snapshot w = None"
  | m l where "tx_snapshot w = Some (user_funds w, daily_rewards w, m, l)"
  using assms by (auto simp add: quiescent_def split: option.splits)

lemma pay_try_thrown:
  assumes "quiescent w" and "f InsertLog = None"
  shows "case pay_try f u t a w of
           (Inl e, w') \<Rightarrow> user_funds (rollback w') = user_funds w
                          \<and> daily_rewards (rollback w') = daily_rewards w
                          \<and> currency_transactions w' = currency_transactions w
                          \<and> tx_snapshot (rollback w') = None
         | (Inr r, w') \<Rightarrow> status r = 200"
  using assms(1)
proof (cases rule: quiescent_cases)
  case 1
  with assms(2) show ?thesis
    by (simp add: pay_try_def handler_defs split: option.split list.split)
next
  case (2 m l)
  with assms(2) show ?thesis
    by (simp add: pay_try_def handler_defs split: option.split list.split)
qed

lemma withdraw_try_thrown:
  assumes "quiescent w" and "f InsertLog = None"
  shows "case withdraw_try f u c d a w of
           (Inl e, w') \<Rightarrow> user_funds (rollback w') = user_funds w
                          \<and> daily_rewards (rollback w') = daily_rewards w
                          \<and> currency_transactions w' = currency_transactions w
                          \<and> tx_snapshot (rollback w') = None
         | (Inr r, w') \<Rightarrow> status r = 200"
  using assms(1)
proof (cases rule: quiescent_cases)
  case 1
  with assms(2) show ?thesis
    by (simp add: withdraw_try_def handler_defs filter_bump split: option.split list.split)
next
  case (2 m l)
  with assms(2) show ?thesis
    by (simp add: withdraw_try_def handler_defs filter_bump split: option.split list.split)
qed

lemma daily_try_thrown:
  assumes "quiescent w"
  shows "case daily_try f z t u w of
           (Inl e, w') \<Rightarrow> user_funds (rollback w') = user_funds w
                          \<and> daily_rewards (rollback w') = daily_rewards w
                          \<and> currency_transactions w' = currency_transactions w
                          \<and> tx_snapshot (rollback w') = None
         | (Inr r, w') \<Rightarrow> status r = 200
              \<or> user_funds w' = user_funds w \<and> daily_rewards w' = daily_rewards w
                 \<and> tx_snapshot w' = None"
  using assms(1)
proof (cases rule: quiescent_cases)
  case 1
  then show ?thesis
    by (simp add: daily_try_def handler_defs select_reward_def upsert_reward_def split_beta
        split: option.split list.split)
next
  case (2 m l)
  then show ?thesis
    by (simp add: daily_try_def handler_defs select_reward_def upsert_reward_def split_beta
        split: option.split list.split)
qed

lemma deposit_try_thrown:
  assumes "quiescent w" and "f InsertLog = None"
  shows "case deposit_try f u a w of
           (Inl e, w') \<Rightarrow> user_funds (rollback w') = user_funds w
                          \<and> daily_rewards (rollback w') = daily_rewards w
                          \<and> currency_transactions w' = currency_transactions w
                          \<and> tx_snapshot (rollback w') = None
         | (Inr r, w') \<Rightarrow> status r = 200
              \<or> user_funds w' = user_funds w \<and> daily_rewards w' = daily_rewards w
                 \<and> currency_transactions w' = currency_transactions w \<and> tx_snapshot w' \<noteq> None"
  using assms(1)
proof (cases rule: quiescent_cases)
  case 1
  with assms(2) show ?thesis
    by (simp add: deposit_try_def handler_defs filter_bump map_bump_absent
        split: option.split list.split)
next
  case (2 m l)
  with assms(2) show ?thesis
    by (simp add: deposit_try_def handler_defs filter_bump map_bump_absent
        split: option.split list.split)
qed

lemma pay_failure_restores:
  assumes "quiescent w" and "f InsertLog = None"
    and "status (fst (pay f uid to amt w)) \<noteq> 200"
  shows "user_funds (snd (pay f uid to amt w)) = user_funds w
       \<and> daily_rewards (snd (pay f uid to amt w)) = daily_rewards w
       \<and> (tx_snapshot (snd (pay f uid to amt w)) = None \<or> snd (pay f uid to amt w) = w)"
  using assms pay_try_thrown [of w f "the uid" "the to" "the (as_number amt)"]
  by (auto simp add: pay_def logger_def split: option.splits prod.splits sum.splits if_splits)

lemma withdraw_failure_restores:
  assumes "quiescent w" and "f InsertLog = None"
    and "status (fst (withdraw f uid cnt den w)) \<noteq> 200"
  shows "user_funds (snd (withdraw f uid cnt den w)) = user_funds w
       \<and> daily_rewards (snd (withdraw f uid cnt den w)) = daily_rewards w
       \<and> (tx_snapshot (snd (withdraw f uid cnt den w)) = None
            \<or> snd (withdraw f uid cnt den w) = w)"
  using assms
    withdraw_try_thrown [of w f "the uid" "the (as_number cnt)"
      "case as_number den of Some d \<Rightarrow> d | None \<Rightarrow> 1000"
      "the (as_number cnt) * (case as_number den of Some d \<Rightarrow> d | None \<Rightarrow> 1000)"]
  by (auto simp add: withdraw_def logger_def Let_def
      split: option.splits prod.splits sum.splits if_splits)

lemma daily_failure_restores:
  assumes "quiescent w"
    and "status (fst (daily f z t uid w)) \<noteq> 200"
  shows "user_funds (snd (daily f z t uid w)) = user_funds w
       \<and> daily_rewards (snd (daily f z t uid w)) = daily_rewards w
       \<and> (tx_snapshot (snd (daily f z t uid w)) = None \<or> snd (daily f z t uid w) = w)"
  using assms daily_try_thrown [of w f z t "the uid"]
  by (auto simp add: daily_def logger_def split: option.splits prod.splits sum.splits if_splits)

lemma deposit_failure_restores:
  assumes "quiescent w" and "f InsertLog = None"
    and "status (fst (deposit f uid amt w)) \<noteq> 200"
  shows "user_funds (snd (deposit f uid amt w)) = user_funds w
       \<and> daily_rewards (snd (deposit f uid amt w)) = daily_rewards w"
  using assms deposit_try_thrown [of w f "the uid" "the (as_number amt)"]
  by (auto simp add: deposit_def logger_def split: option.splits prod.splits sum.splits if_splits)

subsection \<open>Every handler keeps the store good\<close>

lemma good_credit: "good rows \<Longrightarrow> 0 \<le> d \<Longrightarrow> good (map (bump d u) rows)"
  by (auto simp: good_def bump_def)

lemma unique_row:
  "distinct (map uuid rows) \<Longrightarrow> filter (\<lambda>r. uuid r = u) rows = r # rest \<Longrightarrow> x \<in> set rows
     \<Longrightarrow> uuid x = u \<Longrightarrow> x = r"
proof (induction rows)
  case Nil
  then show ?case by simp
next
  case (Cons y ys)
  show ?case
  proof (cases "uuid y = u")
    case True
    with Cons.prems have r: "r = y" by simp
    show ?thesis
    proof (cases "x = y")
      case True
      with r show ?thesis by simp
    next
      case False
      with Cons.prems have "x \<in> set ys" by simp
      then have "uuid x \<in> set (map uuid ys)" by simp
      with Cons.prems True have False by simp
      then show ?thesis ..
    qed
  next
    case False
    with Cons.prems have "filter (\<lambda>r. uuid r = u) ys = r # rest" "x \<in> set ys" "distinct (map uuid ys)"
      by auto
    with Cons.IH Cons.prems show ?thesis by blast
  qed
qed

lemma good_debit:
  assumes "good rows" and "filter (\<lambda>r. uuid r = u) rows = r # rest" and "a \<le> balance r"
  shows "good (map (bump (- a) u) rows)"
proof -
  have "0 \<le> balance (bump (- a) u x)" if "x \<in> set rows" for x
  proof (cases "uuid x = u")
    case True
    with assms that have "x = r" by (auto simp: good_def dest: unique_row)
    with assms True show ?thesis by (simp add: bump_def)
  next
    case False
    with assms that show ?thesis by (simp add: bump_def good_def)
  qed
  with assms(1) show ?thesis by (simp add: good_def)
qed

lemma mid_rollback: "mid w \<Longrightarrow> mid (rollback w)"
  by (auto simp: mid_def rollback_def split: option.splits)

lemma mid_logger [simp]: "mid (logger l m w) = mid w"
  by (auto simp add: mid_def logger_def split: option.splits)

lemma pay_try_mid:
  assumes "mid w" and "0 < a"
  shows "mid (snd (pay_try f u t a w))"
  using assms
  by (auto simp add: pay_try_def handler_defs mid_def good_credit good_debit
      simp del: map_map
      split: option.splits list.splits)

lemma deposit_try_mid:
  assumes "mid w" and "0 < a"
  shows "mid (snd (deposit_try f u a w))"
  using assms
  by (auto simp add: deposit_try_def handler_defs mid_def good_credit
      simp del: map_map
      split: option.splits list.splits)

lemma withdraw_try_mid:
  assumes "mid w"
  shows "mid (snd (withdraw_try f u c d a w))"
  using assms
  by (auto simp add: withdraw_try_def handler_defs mid_def good_debit
      simp del: map_map
      split: option.splits list.splits)

lemma daily_try_mid:
  assumes "mid w"
  shows "mid (snd (daily_try f z n u w))"
  using assms
  by (auto simp add: daily_try_def handler_defs mid_def good_credit
        select_reward_def upsert_reward_def DAILY_REWARD_AMOUNT_def
      simp del: map_map
      split: option.splits list.splits prod.splits)

text \<open>The \<^verbatim>\<open>catch\<close> block of a handler: answer, log, roll back.\<close>

lemma try_mid:
  assumes "mid (snd r)"
  shows "mid (snd (case r of (Inr x, w') \<Rightarrow> (x, w')
                   | (Inl e, w') \<Rightarrow> (h e, logger l (m e) (rollback w'))))"
proof (cases r)
  case (Pair a w')
  with assms have "mid w'" by simp
  with Pair show ?thesis
    by (cases a) (simp_all add: mid_rollback)
qed

lemma pay_mid:
  assumes "mid w"
  shows "mid (snd (pay f uid to amt w))"
proof (cases "\<exists>u t a. uid = Some u \<and> to = Some t \<and> as_number amt = Some a
                \<and> u \<noteq> [] \<and> t \<noteq> [] \<and> 0 < a")
  case True
  then obtain u t a where v: "uid = Some u" "to = Some t" "as_number amt = Some a"
    "u \<noteq> []" "t \<noteq> []" "0 < a" by blast
  from assms v(6) have "mid (snd (pay_try f u t a w))"
    by (rule pay_try_mid)
  from try_mid [OF this] v show ?thesis by (simp add: pay_def)
next
  case False
  then have "snd (pay f uid to amt w) = w"
    by (auto simp add: pay_def split: option.splits)
  with assms show ?thesis by simp
qed

lemma deposit_mid:
  assumes "mid w"
  shows "mid (snd (deposit f uid amt w))"
proof (cases "\<exists>u a. uid = Some u \<and> as_number amt = Some a \<and> u \<noteq> [] \<and> 0 < a")
  case True
  then obtain u a where v: "uid = Some u" "as_number amt = Some a" "u \<noteq> []" "0 < a"
    by blast
  from assms v(4) have "mid (snd (deposit_try f u a w))"
    by (rule deposit_try_mid)
  from try_mid [OF this] v show ?thesis by (simp add: deposit_def)
next
  case False
  then have "snd (deposit f uid amt w) = w"
    by (auto simp add: deposit_def split: option.splits)
  with assms show ?thesis by simp
qed

lemma withdraw_mid:
  assumes "mid w"
  shows "mid (snd (withdraw f uid cnt den w))"
proof (cases "\<exists>u c. uid = Some u \<and> as_number cnt = Some c \<and> u \<noteq> [] \<and> 0 < c")
  case True
  then obtain u c where v: "uid = Some u" "as_number cnt = Some c" "u \<noteq> []" "0 < c"
    by blast
  from assms have "mid (snd (withdraw_try f u c d a w))" for d a
    by (rule withdraw_try_mid)
  from try_mid [OF this] v show ?thesis by (simp add: withdraw_def Let_def)
next
  case False
  then have "snd (withdraw f uid cnt den w) = w"
    by (auto simp add: withdraw_def split: option.splits)
  with assms show ?thesis by simp
qed

lemma daily_mid:
  assumes "mid w"
  shows "mid (snd (daily f z n uid w))"
proof (cases "\<exists>u. uid = Some u \<and> u \<noteq> []")
  case True
  then obtain u where v: "uid = Some u" "u \<noteq> []" by blast
  from assms have "mid (snd (daily_try f z n u w))"
    by (rule daily_try_mid)
  from try_mid [OF this] v show ?thesis by (simp add: daily_def)
next
  case False
  then have "snd (daily f z n uid w) = w"
    by (auto simp add: daily_def split: option.splits)
  with assms show ?thesis by simp
qed

lemma get_balance_mid: "mid w \<Longrightarrow> mid (snd (get_balance f uid w))"
  by (auto simp add: get_balance_def query_def split: option.splits list.splits)

lemma top_mid: "mid w \<Longrightarrow> mid (snd (top f w))"
  by (auto simp add: top_def query_def select_top_def split: option.splits)

lemma mid_mob [simp]: "mid (w\<lparr>mob_limit_reached := x\<rparr>) = mid w"
  by (auto simp add: mid_def split: option.splits)

lemma mob_limit_mark_mid: "mid w \<Longrightarrow> mid (snd (mob_limit_mark f d uid w))"
  by (auto simp add: mob_limit_mark_def query_def split: option.splits)

lemma mob_limit_check_mid: "mid w \<Longrightarrow> mid (snd (mob_limit_check f d uid w))"
  by (auto simp add: mob_limit_check_def query_def split: option.splits)

lemma good_rename:
  assumes "good rows"
  shows "good (map (\<lambda>r. if uuid r = u then r\<lparr>name := n\<rparr> else r) rows)"
proof -
  let ?g = "\<lambda>r. if uuid r = u then r\<lparr>name := n\<rparr> else r"
  have k: "map uuid (map ?g rows) = map uuid rows"
    by (induction rows) simp_all
  from assms have "distinct (map uuid (map ?g rows))"
    by (simp only: k) (simp add: good_def)
  moreover from assms have "\<forall>r \<in> set rows. 0 \<le> balance (?g r)"
    by (simp add: good_def)
  then have "\<forall>r \<in> set (map ?g rows). 0 \<le> balance r"
    unfolding set_map by blast
  ultimately show ?thesis
    unfolding good_def by blast
qed

lemma good_upsert_user: "good rows \<Longrightarrow> good (upsert_user u n rows)"
  by (auto simp add: upsert_user_def good_rename) (auto simp add: good_def)

lemma mid_upsert_user:
  "mid w \<Longrightarrow> mid (w\<lparr>user_funds := upsert_user u n (user_funds w)\<rparr>)"
  by (auto simp add: mid_def good_upsert_user split: option.splits)

lemma login_mid: "mid w \<Longrightarrow> mid (snd (login f sg sec bu bn w))"
  by (auto simp add: login_def query_def bnd_def throw_def mid_upsert_user
      split: option.splits)

lemma verifyIP_mid: "mid w \<Longrightarrow> mid (snd (verifyIP a b x r w))"
  by (simp add: verifyIP_def Let_def)

lemma run_endpoint_mid: "mid w \<Longrightarrow> mid (snd (run_endpoint c e req usr w))"
  by (cases e)
     (simp_all add: login_mid get_balance_mid pay_mid deposit_mid withdraw_mid top_mid
        mob_limit_mark_mid mob_limit_check_mid daily_mid)

lemma dispatch_mid: "mid w \<Longrightarrow> mid (snd (dispatch ls c req usr w))"
proof (induction ls c req usr w rule: dispatch.induct)
  case (1 c req usr w)
  then show ?case by simp
next
  case (2 m p e ls c req usr w)
  then show ?case by (simp add: run_endpoint_mid)
next
  case (3 p ls c req usr w)
  then show ?case by (simp split: sum.splits)
next
  case (4 p ls c req usr w)
  show ?case
  proof (cases "mounted_under p (path req)")
    case False
    with 4 show ?thesis by simp
  next
    case True
    obtain r w' where v: "verifyIP (ALLOWED_IP_ADDRESS c) (ALLOWED_IP_ADDRESS_LOCAL c)
                          (x_forwarded_for req) (remoteAddress req) w = (r, w')"
      by (cases "verifyIP (ALLOWED_IP_ADDRESS c) (ALLOWED_IP_ADDRESS_LOCAL c)
                          (x_forwarded_for req) (remoteAddress req) w")
    with verifyIP_mid [OF 4(3), of "ALLOWED_IP_ADDRESS c" "ALLOWED_IP_ADDRESS_LOCAL c"
        "x_forwarded_for req" "remoteAddress req"]
    have w': "mid w'" by simp
    show ?thesis
    proof (cases r)
      case (Inl a)
      with True v w' show ?thesis by simp
    next
      case (Inr b)
      with True v w' 4(1) [OF True v [symmetric, unfolded Inr]] show ?thesis
        by simp
    qed
  qed
qed

lemma serve_mid: "mid w \<Longrightarrow> mid (serve rs w)"
  by (induction rs arbitrary: w) (auto simp add: currencyRoutes_def dispatch_mid)

subsection \<open>No balance is ever negative\<close>

lemma insufficient_pay:
  assumes "quiescent w" and "u \<noteq> []" and "t \<noteq> []" and "0 < a"
    and "f Begin = None" and "f SelectFunds = None"
    and "filter (\<lambda>r. uuid r = u) (user_funds w) = r # rest" and "balance r < a"
  shows "fst (pay f (Some u) (Some t) (Some (JNumber a)) w)
           = \<lparr>status = 400, body = ErrorBody ''Insufficient funds''\<rparr>
       \<and> user_funds (snd (pay f (Some u) (Some t) (Some (JNumber a)) w)) = user_funds w"
  using assms
  by (auto simp add: pay_def pay_try_def handler_defs quiescent_def split: option.splits)

lemma insufficient_withdraw:
  assumes "quiescent w" and "u \<noteq> []" and "0 < c"
    and "f Begin = None" and "f SelectFunds = None"
    and "filter (\<lambda>r. uuid r = u) (user_funds w) = r # rest"
    and "balance r < c * (case as_number den of Some d \<Rightarrow> d | None \<Rightarrow> 1000)"
  shows "fst (withdraw f (Some u) (Some (JNumber c)) den w)
           = \<lparr>status = 400, body = ErrorBody ''Insufficient funds''\<rparr>
       \<and> user_funds (snd (withdraw f (Some u) (Some (JNumber c)) den w)) = user_funds w"
  using assms
  by (auto simp add: withdraw_def withdraw_try_def handler_defs quiescent_def split: option.splits)

text \<open>
  C4. Starting from a store in which \<^verbatim>\<open>uuid\<close> is a key, no balance is negative and
  no open transaction holds a change, every sequence of requests to the router (pay,
  deposit, withdraw, claim-daily and the others, with any inputs, any token and any
  storage fault) ends in a store in which every balance is at least 0. In particular a
  pay, and a withdraw, whose locked balance is below the debit amount is answered 400
  \<^verbatim>\<open>Insufficient funds\<close> and leaves \<^verbatim>\<open>user_funds\<close> as it was.
\<close>

theorem balance_never_negative:
  assumes "good (user_funds w)" and "quiescent w"
  shows "(\<forall>x \<in> set (user_funds (serve rs w)). 0 \<le> balance x)
       \<and> (u \<noteq> [] \<and> t \<noteq> [] \<and> 0 < a \<and> f Begin = None \<and> f SelectFunds = None
            \<and> filter (\<lambda>r. uuid r = u) (user_funds w) = r # rest \<and> balance r < a
          \<longrightarrow> fst (pay f (Some u) (Some t) (Some (JNumber a)) w)
                = \<lparr>status = 400, body = ErrorBody ''Insufficient funds''\<rparr>
              \<and> user_funds (snd (pay f (Some u) (Some t) (Some (JNumber a)) w)) = user_funds w)
       \<and> (u \<noteq> [] \<and> 0 < c \<and> f Begin = None \<and> f SelectFunds = None
            \<and> filter (\<lambda>r. uuid r = u) (user_funds w) = r # rest
            \<and> balance r < c * (case as_number den of Some d \<Rightarrow> d | None \<Rightarrow> 1000)
          \<longrightarrow> fst (withdraw f (Some u) (Some (JNumber c)) den w)
                = \<lparr>status = 400, body = ErrorBody ''Insufficient funds''\<rparr>
              \<and> user_funds (snd (withdraw f (Some u) (Some (JNumber c)) den w)) = user_funds w)"
proof -
  from assms have "mid w"
    by (auto simp add: mid_def quiescent_def split: option.splits)
  then have "mid (serve rs w)"
    by (rule serve_mid)
  then have "\<forall>x \<in> set (user_funds (serve rs w)). 0 \<le> balance x"
    by (simp add: mid_def good_def)
  with assms(2) show ?thesis
    using insufficient_pay [of w u t a f r rest] insufficient_withdraw [of w u c f r rest den]
    by blast
qed

theorem balance_never_negative_witness:
  "good (user_funds alice_and_bob) \<and> quiescent alice_and_bob
   \<and> map balance (user_funds (serve busy_day alice_and_bob)) = [75, 20]
   \<and> list_all (\<lambda>x. 0 \<le> balance x) (user_funds (serve busy_day alice_and_bob))
   \<and> fst (pay no_faults (Some ''u1'') (Some ''u2'') (Some (JNumber 500)) alice_and_bob)
        = \<lparr>status = 400, body = ErrorBody ''Insufficient funds''\<rparr>
   \<and> fst (withdraw no_faults (Some ''u1'') (Some (JNumber 1)) None alice_and_bob)
        = \<lparr>status = 400, body = ErrorBody ''Insufficient funds''\<rparr>"
proof -
  have g: "good (user_funds alice_and_bob)" and q: "quiescent alice_and_bob"
    by (simp_all add: good_def quiescent_def alice_and_bob_def)
  have e: "map balance (user_funds (serve busy_day alice_and_bob)) = [75, 20]"
    by (simp add: busy_day_def route_defs pay_def pay_try_def withdraw_def withdraw_try_def
        daily_def daily_try_def handler_defs select_reward_def upsert_reward_def
        getLastReset_def DAILY_REWARD_AMOUNT_def alice_and_bob_def no_faults_def europe_berlin_def
        bump_def)
  from balance_never_negative [OF g q, of busy_day "''u1''" "''u2''" 500 no_faults
      "\<lparr>uuid = ''u1'', name = ''Alice'', balance = 100\<rparr>" "[]" 1 None]
  show ?thesis using g q e
    by (simp add: alice_and_bob_def no_faults_def list_all_iff)
qed

subsection \<open>Local time\<close>

text \<open>Whatever the calendar of summer time, 06:30 exists once on every local day, and
  luxon's \<^verbatim>\<open>set\<close> and \<^verbatim>\<open>plus\<close> find it: the changes of offset are at 01:00 UTC,
  which is 02:00 or 03:00 local time.\<close>

lemma div_day:
  fixes d x :: int
  assumes "d * 86400000 \<le> x" and "x < d * 86400000 + 86400000"
  shows "x div 86400000 = d"
  using assms int_div_pos_eq [of x 86400000 d "x - d * 86400000"] by simp

lemma saving_cases: "saving cal d = 60 \<or> saving cal d = 120"
  by (simp add: saving_def)

lemma offset_cases: "offset cal ts = 60 \<or> offset cal ts = 120"
  by (simp add: offset_def)

lemma offset_at:
  assumes "d * 86400000 + 3600000 \<le> ts" and "ts < d * 86400000 + 90000000"
  shows "offset cal ts = saving cal d"
proof -
  from assms have "(ts - 3600000) div 86400000 = d"
    by (intro div_day) simp_all
  then show ?thesis
    by (simp add: offset_def saving_def)
qed

lemma reset_bounds:
  "d * 86400000 + 16200000 \<le> reset_of cal d" "reset_of cal d \<le> d * 86400000 + 19800000"
  using saving_cases [of cal d] by (auto simp add: reset_of_def)

lemma offset_reset: "offset cal (reset_of cal d) = saving cal d"
  using reset_bounds [where d = d and cal = cal] by (intro offset_at) simp_all

lemma fixOffset_morning:
  assumes "o1 = 60 \<or> o1 = 120"
  shows "fixOffset cal (d * 86400000 + 23400000) o1 = reset_of cal d"
proof -
  have a: "offset cal (d * 86400000 + 23400000 - 3600000) = saving cal d"
    by (intro offset_at) simp_all
  have b: "offset cal (d * 86400000 + 23400000 - 7200000) = saving cal d"
    by (intro offset_at) simp_all
  from assms show ?thesis
  proof
    assume o: "o1 = 60"
    show ?thesis
    proof (cases "saving cal d = 60")
      case True
      with o a show ?thesis
        by (simp add: fixOffset_def reset_of_def)
    next
      case False
      with saving_cases [of cal d] have s: "saving cal d = 120" by simp
      have "d * 86400000 + 23400000 - 60 * 60 * 1000 - (120 - 60) * 60 * 1000
          = d * 86400000 + 23400000 - 7200000" by simp
      with o s a b show ?thesis
        by (simp add: fixOffset_def reset_of_def Let_def)
    qed
  next
    assume o: "o1 = 120"
    show ?thesis
    proof (cases "saving cal d = 120")
      case True
      with o b show ?thesis
        by (simp add: fixOffset_def reset_of_def)
    next
      case False
      with saving_cases [of cal d] have s: "saving cal d = 60" by simp
      with o s a b show ?thesis
        by (simp add: fixOffset_def reset_of_def Let_def)
    qed
  qed
qed

lemma localTS_reset: "localTS cal (reset_of cal d) = d * 86400000 + 23400000"
  by (simp add: localTS_def offset_reset) (simp add: reset_of_def)

lemma local_reset:
  "local_day cal (reset_of cal d) = d" "local_clock cal (reset_of cal d) = 23400000"
proof -
  show d: "local_day cal (reset_of cal d) = d"
    unfolding local_day_def localTS_reset by (intro div_day) simp_all
  have "localTS cal (reset_of cal d)
      = local_day cal (reset_of cal d) * 86400000 + local_clock cal (reset_of cal d)"
    by (simp add: local_day_def local_clock_def)
  then show "local_clock cal (reset_of cal d) = 23400000"
    by (simp add: d localTS_reset)
qed

lemma set_clock_reset: "set_clock cal ts 6 30 = reset_of cal (local_day cal ts)"
proof -
  have "localTS cal ts div 86400000 * 86400000 + 6 * 3600000 + 30 * 60000
      = local_day cal ts * 86400000 + 23400000"
    by (simp add: local_day_def)
  then show ?thesis
    unfolding set_clock_def by (simp only: fixOffset_morning [OF offset_cases])
qed

lemma plus_days_reset: "plus_days cal (reset_of cal d) n = reset_of cal (d + n)"
proof -
  have "localTS cal (reset_of cal d) + n * 86400000 = (d + n) * 86400000 + 23400000"
    by (simp add: localTS_reset algebra_simps)
  then show ?thesis
    unfolding plus_days_def by (simp only: fixOffset_morning [OF offset_cases])
qed

lemma getLastReset_reset:
  "getLastReset cal now
     = (if now < reset_of cal (local_day cal now) then reset_of cal (local_day cal now - 1)
        else reset_of cal (local_day cal now))"
  by (simp add: getLastReset_def set_clock_reset plus_days_reset)

lemma local_parts:
  "localTS cal ts = local_day cal ts * 86400000 + local_clock cal ts"
  "0 \<le> local_clock cal ts" "local_clock cal ts < 86400000"
  by (simp_all add: local_day_def local_clock_def)

lemma boundary_brackets_now:
  "getLastReset cal now \<le> now" "now < plus_days cal (getLastReset cal now) 1"
proof -
  define D where "D = local_day cal now"
  have l: "D * 86400000 - 7200000 \<le> now" "now < D * 86400000 + 86400000 - 3600000"
    using local_parts [of cal now] offset_cases [of cal now]
    by (auto simp add: localTS_def D_def)
  have g: "getLastReset cal now = (if now < reset_of cal D then reset_of cal (D - 1)
        else reset_of cal D)"
    by (simp add: getLastReset_reset D_def)
  show "getLastReset cal now \<le> now"
    using l reset_bounds [where d = "D - 1" and cal = cal] by (simp add: g algebra_simps)
  show "now < plus_days cal (getLastReset cal now) 1"
    using l reset_bounds [where d = "D + 1" and cal = cal]
    by (simp add: g plus_days_reset algebra_simps)
qed

lemma before_reset_clock:
  "now < reset_of cal (local_day cal now) \<longleftrightarrow> local_clock cal now < 23400000"
proof -
  define D where "D = local_day cal now"
  define c where "c = local_clock cal now"
  have p: "now + offset cal now * 60000 = D * 86400000 + c" "0 \<le> c" "c < 86400000"
    using local_parts [of cal now] by (simp_all add: D_def c_def localTS_def)
  have "now < reset_of cal D \<longleftrightarrow> c < 23400000"
  proof (cases "D * 86400000 + 3600000 \<le> now")
    case True
    moreover from p offset_cases [of cal now] have "now < D * 86400000 + 90000000"
      by auto
    ultimately have "offset cal now = saving cal D"
      by (rule offset_at)
    with p have "now + saving cal D * 60000 = D * 86400000 + c"
      by simp
    then show ?thesis
      unfolding reset_of_def by linarith
  next
    case False
    with p offset_cases [of cal now] have "c < 23400000"
      by auto
    with False reset_bounds [where d = D and cal = cal] show ?thesis
      by simp
  qed
  then show ?thesis
    by (simp add: D_def c_def)
qed

lemma reset_unique:
  assumes "local_day cal x = d" and "local_clock cal x = 23400000"
  shows "x = reset_of cal d"
proof -
  from assms local_parts(1) [where cal = cal and ts = x] have l: "x + offset cal x * 60000 = d * 86400000 + 23400000"
    by (simp add: localTS_def)
  with offset_cases [where cal = cal and ts = x] have "d * 86400000 + 3600000 \<le> x" "x < d * 86400000 + 90000000"
    by auto
  then have "offset cal x = saving cal d"
    by (rule offset_at)
  with l show ?thesis
    by (simp add: reset_of_def)
qed

lemma reset_iff:
  "local_day cal x = d \<and> local_clock cal x = 23400000 \<longleftrightarrow> x = reset_of cal d"
  using reset_unique [where cal = cal and x = x and d = d] local_reset [where cal = cal and d = d]
  by blast

subsection \<open>Eligibility for the daily reward\<close>

lemma daily_response:
  assumes "u \<noteq> []" and "filter (\<lambda>r. uuid r = u) (user_funds w) = r # rest"
    and "f Begin = None" and "f SelectFunds = None" and "f SelectReward = None"
    and "f CreditFunds = None" and "f UpsertReward = None" and "f Commit = None"
  shows "fst (daily f z t (Some u) w)
           = (if (case daily_rewards w u of
                    Some (Some c) \<Rightarrow> getLastReset z t \<le> c | _ \<Rightarrow> False)
              then \<lparr>status = 429,
                    body = DailyLimited
                             (fst (diff_hours_minutes (plus_days z (getLastReset z t) 1) t))
                             (snd (diff_hours_minutes (plus_days z (getLastReset z t) 1) t))\<rparr>
              else \<lparr>status = 200, body = DailyOk 50 (balance r + 50)\<rparr>)"
  using assms
  by (simp add: daily_def daily_try_def handler_defs select_reward_def upsert_reward_def
        DAILY_REWARD_AMOUNT_def split_beta
      split: option.splits)

text \<open>
  C5 says of every daily-claim request that it succeeds when no prior claim exists. On
  the code the account is looked up first: a claim for a uuid without a row in
  \<^verbatim>\<open>user_funds\<close> is answered 404, prior claim or not.
\<close>

theorem daily_unknown_account_is_404:
  "daily_rewards alice_and_bob ''nobody'' = None
   \<and> fst (daily no_faults europe_berlin 1000000000000 (Some ''nobody'') alice_and_bob)
       = \<lparr>status = 404, body = ErrorBody ''User not found.''\<rparr>"
  by (simp add: daily_def daily_try_def handler_defs alice_and_bob_def no_faults_def)

text \<open>
  C5 as amended. For a daily-claim request of an account that has a row, when no storage
  statement fails, and whatever the calendar of summer time: the reset boundary is the
  one instant whose local time is 06:30:00.000 on the local day of now, or on the day
  before when now precedes today's reset instant (when the local clock of now reads less
  than 06:30); it is not after now, and the same instant one calendar day later is after
  now. The claim succeeds exactly when there is no prior claim (no row, or a null
  timestamp) or the prior claim is strictly before the boundary; otherwise the answer is
  429, with the whole hours and then the whole minutes of boundary + 1 day - now.
\<close>

theorem daily_eligibility:
  assumes "u \<noteq> []" and "filter (\<lambda>r. uuid r = u) (user_funds w) = r # rest"
    and "f Begin = None" and "f SelectFunds = None" and "f SelectReward = None"
    and "f CreditFunds = None" and "f UpsertReward = None" and "f Commit = None"
  shows "(\<forall>x. x = getLastReset cal t
             \<longleftrightarrow> local_clock cal x = 6 * 3600000 + 30 * 60000
                 \<and> local_day cal x
                     = (if t < set_clock cal t 6 30 then local_day cal t - 1 else local_day cal t))
       \<and> (\<forall>x. x = set_clock cal t 6 30
             \<longleftrightarrow> local_clock cal x = 6 * 3600000 + 30 * 60000
                 \<and> local_day cal x = local_day cal t)
       \<and> (t < set_clock cal t 6 30 \<longleftrightarrow> local_clock cal t < 6 * 3600000 + 30 * 60000)
       \<and> (\<forall>x. x = plus_days cal (getLastReset cal t) 1
             \<longleftrightarrow> local_clock cal x = 6 * 3600000 + 30 * 60000
                 \<and> local_day cal x = local_day cal (getLastReset cal t) + 1)
       \<and> getLastReset cal t \<le> t \<and> t < plus_days cal (getLastReset cal t) 1
       \<and> (status (fst (daily f cal t (Some u) w)) = 200
            \<longleftrightarrow> daily_rewards w u = None \<or> daily_rewards w u = Some None
                \<or> (\<exists>c. daily_rewards w u = Some (Some c) \<and> c < getLastReset cal t))
       \<and> (status (fst (daily f cal t (Some u) w)) \<noteq> 200
            \<longrightarrow> fst (daily f cal t (Some u) w)
                  = \<lparr>status = 429,
                     body = DailyLimited
                       ((plus_days cal (getLastReset cal t) 1 - t) div 3600000)
                       (((plus_days cal (getLastReset cal t) 1 - t) mod 3600000) div 60000)\<rparr>)"
proof -
  define D where "D = local_day cal t"
  define b where "b = getLastReset cal t"
  define n where "n = plus_days cal b 1"
  have s: "set_clock cal t 6 30 = reset_of cal D"
    by (simp add: set_clock_reset D_def)
  have g: "b = reset_of cal (if t < reset_of cal D then D - 1 else D)"
    by (simp add: b_def getLastReset_reset D_def)
  have 1: "x = b \<longleftrightarrow> local_clock cal x = 6 * 3600000 + 30 * 60000
      \<and> local_day cal x = (if t < set_clock cal t 6 30 then D - 1 else D)" for x
    using reset_iff [where cal = cal and x = x and d = "if t < reset_of cal D then D - 1 else D"]
    by (simp only: s g) auto
  have 2: "x = set_clock cal t 6 30 \<longleftrightarrow> local_clock cal x = 6 * 3600000 + 30 * 60000
      \<and> local_day cal x = D" for x
    using reset_iff [where cal = cal and x = x and d = D] by (simp only: s) auto
  have 3: "t < set_clock cal t 6 30 \<longleftrightarrow> local_clock cal t < 6 * 3600000 + 30 * 60000"
    using before_reset_clock [where cal = cal and now = t] by (simp add: s D_def)
  have nb: "n = reset_of cal (local_day cal b + 1)"
    by (simp add: n_def g plus_days_reset local_reset)
  have 4: "x = n \<longleftrightarrow> local_clock cal x = 6 * 3600000 + 30 * 60000
      \<and> local_day cal x = local_day cal b + 1" for x
    using reset_iff [where cal = cal and x = x and d = "local_day cal b + 1"] by (simp only: nb) auto
  have 5: "b \<le> t" "t < n"
    using boundary_brackets_now [where cal = cal and now = t] by (simp_all add: b_def n_def)
  have d: "diff_hours_minutes n t = ((n - t) div 3600000, ((n - t) mod 3600000) div 60000)"
    using 5 by (simp add: diff_hours_minutes_def Let_def)
  note resp = daily_response [OF assms, of cal t, folded b_def, folded n_def]
  have 6: "status (fst (daily f cal t (Some u) w)) = 200
            \<longleftrightarrow> daily_rewards w u = None \<or> daily_rewards w u = Some None
                \<or> (\<exists>c. daily_rewards w u = Some (Some c) \<and> c < b)"
    by (auto simp add: resp split: option.splits)
  have 7: "status (fst (daily f cal t (Some u) w)) \<noteq> 200
            \<longrightarrow> fst (daily f cal t (Some u) w)
                  = \<lparr>status = 429,
                     body = DailyLimited ((n - t) div 3600000) (((n - t) mod 3600000) div 60000)\<rparr>"
    by (auto simp add: resp d split: option.splits)
  from 1 2 3 4 5 6 7 show ?thesis
    unfolding b_def n_def D_def by blast
qed

theorem daily_eligibility_witness:
  "getLastReset europe_berlin 1000000060000 = 999923400000
   \<and> local_clock europe_berlin 999923400000 = 23400000
   \<and> offset europe_berlin 999923400000 = 120
   \<and> plus_days europe_berlin 999923400000 1 = 1000009800000
   \<and> status (fst (daily no_faults europe_berlin 1000000000000 (Some ''u1'') alice_and_bob)) = 200
   \<and> fst (daily no_faults europe_berlin 1000000060000 (Some ''u1'') alice_claimed)
       = \<lparr>status = 429, body = DailyLimited 2 42\<rparr>
   \<and> getLastReset europe_berlin 1743294600000 = 1743226200000
   \<and> plus_days europe_berlin 1743226200000 1 = 1743226200000 + 23 * 3600000"
proof -
  have r: "getLastReset europe_berlin 1000000060000 = 999923400000"
    by code_simp
  have c: "local_clock europe_berlin 999923400000 = 23400000"
      "offset europe_berlin 999923400000 = 120"
    by code_simp+
  have n: "plus_days europe_berlin 999923400000 1 = 1000009800000"
    by code_simp
  have s: "getLastReset europe_berlin 1743294600000 = 1743226200000"
      "plus_days europe_berlin 1743226200000 1 = 1743226200000 + 23 * 3600000"
    by code_simp+
  have h1: "''u1'' \<noteq> []"
      "filter (\<lambda>r. uuid r = ''u1'') (user_funds alice_and_bob)
         = \<lparr>uuid = ''u1'', name = ''Alice'', balance = 100\<rparr> # []"
      "no_faults Begin = None" "no_faults SelectFunds = None" "no_faults SelectReward = None"
      "no_faults CreditFunds = None" "no_faults UpsertReward = None" "no_faults Commit = None"
    by (simp_all add: alice_and_bob_def no_faults_def)
  have h2: "filter (\<lambda>r. uuid r = ''u1'') (user_funds alice_claimed)
         = \<lparr>uuid = ''u1'', name = ''Alice'', balance = 100\<rparr> # []"
    by (simp add: alice_claimed_def alice_and_bob_def)
  have p1: "daily_rewards alice_and_bob ''u1'' = None"
    by (simp add: alice_and_bob_def)
  have p2: "daily_rewards alice_claimed ''u1'' = Some (Some 1000000000000)"
    by (simp add: alice_claimed_def)
  note t1 = daily_eligibility [OF h1, of europe_berlin 1000000000000]
  note t2 = daily_eligibility [OF h1(1) h2 h1(3-8), of europe_berlin 1000000060000]
  from t1 p1
  have a: "status (fst (daily no_faults europe_berlin 1000000000000 (Some ''u1'') alice_and_bob))
      = 200"
    by blast
  from t2 [THEN conjunct2, THEN conjunct2, THEN conjunct2, THEN conjunct2, THEN conjunct2,
      THEN conjunct2, THEN conjunct1]
  have "status (fst (daily no_faults europe_berlin 1000000060000 (Some ''u1'') alice_claimed))
      \<noteq> 200"
    by (simp add: p2 r)
  with t2 [THEN conjunct2, THEN conjunct2, THEN conjunct2, THEN conjunct2, THEN conjunct2,
      THEN conjunct2, THEN conjunct2]
  have "fst (daily no_faults europe_berlin 1000000060000 (Some ''u1'') alice_claimed)
       = \<lparr>status = 429, body = DailyLimited 2 42\<rparr>"
    by (simp add: r n)
  with r c n s a show ?thesis by blast
qed

subsection \<open>Paying oneself\<close>

text \<open>
  C9. A pay whose recipient is the sender, with balance \<open>b \<ge> amount > 0\<close> and no storage
  fault, succeeds; the debit and the credit cancel, so the stored rows are unchanged;
  the answer's \<^verbatim>\<open>new_sender_balance\<close> and the logged \<^verbatim>\<open>balance_after\<close> are both
  \<open>b - amount\<close>, which is not the stored balance \<open>b\<close>.
\<close>

theorem pay_to_self:
  assumes "u \<noteq> []" and "0 < a"
    and "filter (\<lambda>r. uuid r = u) (user_funds w) = r # rest" and "a \<le> balance r"
    and "f Begin = None" and "f SelectFunds = None" and "f DebitFunds = None"
    and "f CreditFunds = None" and "f Commit = None" and "f InsertLog = None"
  shows "fst (pay f (Some u) (Some u) (Some (JNumber a)) w)
           = \<lparr>status = 200, body = PayOk (balance r - a)\<rparr>
       \<and> user_funds (snd (pay f (Some u) (Some u) (Some (JNumber a)) w)) = user_funds w
       \<and> currency_transactions (snd (pay f (Some u) (Some u) (Some (JNumber a)) w))
           = currency_transactions w @
             [\<lparr>t_uuid = u, t_action = ''pay'', t_amount = a, t_from_uuid = Some u,
               t_to_uuid = Some u, t_denomination = None, t_count = None,
               t_balance_after = Some (balance r - a)\<rparr>]
       \<and> balance r - a \<noteq> balance r"
  using assms
  by (simp add: pay_def pay_try_def handler_defs filter_bump split: option.splits)

theorem pay_to_self_witness:
  "fst (pay no_faults (Some ''u1'') (Some ''u1'') (Some (JNumber 30)) alice_and_bob)
     = \<lparr>status = 200, body = PayOk 70\<rparr>
   \<and> map balance (user_funds (snd (pay no_faults (Some ''u1'') (Some ''u1'') (Some (JNumber 30))
                                     alice_and_bob)))
     = [100, 5]
   \<and> map t_balance_after
        (currency_transactions (snd (pay no_faults (Some ''u1'') (Some ''u1'') (Some (JNumber 30))
                                     alice_and_bob)))
     = [Some 70]"
  using pay_to_self [of "''u1''" 30 alice_and_bob
      "\<lparr>uuid = ''u1'', name = ''Alice'', balance = 100\<rparr>" "[]" no_faults]
  by (simp add: alice_and_bob_def no_faults_def)

subsection \<open>The origin gate\<close>














subsection \<open>Status of an absent account\<close>

text \<open>
  C7 asks for status 404 whenever the account row is absent, pay with an absent sender
  included. On the code a pay whose sender has no row throws \<^verbatim>\<open>Sender not found\<close>, and
  the handler's \<^verbatim>\<open>catch\<close> answers every thrown error with status 400.
\<close>

theorem pay_unknown_sender_is_400:
  "fst (pay no_faults (Some ''nobody'') (Some ''u1'') (Some (JNumber 30)) alice_and_bob)
     = \<lparr>status = 400, body = ErrorBody ''Sender not found''\<rparr>"
  by (simp add: pay_def pay_try_def handler_defs alice_and_bob_def no_faults_def)

text \<open>
  C7 as amended. For an account without a row, and no storage fault before the row is
  missed: balance lookup, deposit and claim-daily answer 404; pay answers 400 with
  \<^verbatim>\<open>Sender not found\<close> when the sender is absent and 400 with
  \<^verbatim>\<open>Recipient not found\<close> when the recipient is absent; withdraw answers 400 with
  \<^verbatim>\<open>User not found\<close>.
\<close>

theorem absent_account_status:
  assumes "u \<noteq> []" and "filter (\<lambda>r. uuid r = u) (user_funds w) = []"
    and "f Begin = None" and "f SelectFunds = None" and "f DebitFunds = None"
    and "f CreditFunds = None"
  shows "fst (get_balance f (Some u) w)
           = \<lparr>status = 404, body = ErrorBody ''Player not found''\<rparr>
       \<and> (0 < a \<longrightarrow> fst (deposit f (Some u) (Some (JNumber a)) w)
                  = \<lparr>status = 404, body = ErrorBody ''User not found''\<rparr>)
       \<and> fst (daily f z t (Some u) w) = \<lparr>status = 404, body = ErrorBody ''User not found.''\<rparr>
       \<and> (v \<noteq> [] \<and> 0 < a \<longrightarrow> fst (pay f (Some u) (Some v) (Some (JNumber a)) w)
                  = \<lparr>status = 400, body = ErrorBody ''Sender not found''\<rparr>)
       \<and> (v \<noteq> [] \<and> 0 < a \<and> filter (\<lambda>r. uuid r = v) (user_funds w) = r # rest \<and> a \<le> balance r
            \<longrightarrow> fst (pay f (Some v) (Some u) (Some (JNumber a)) w)
                  = \<lparr>status = 400, body = ErrorBody ''Recipient not found''\<rparr>)
       \<and> (0 < c \<longrightarrow> fst (withdraw f (Some u) (Some (JNumber c)) den w)
                  = \<lparr>status = 400, body = ErrorBody ''User not found''\<rparr>)"
proof -
  have 1: "fst (get_balance f (Some u) w)
             = \<lparr>status = 404, body = ErrorBody ''Player not found''\<rparr>"
    using assms by (simp add: get_balance_def query_def)
  have 2: "0 < a \<Longrightarrow> fst (deposit f (Some u) (Some (JNumber a)) w)
                  = \<lparr>status = 404, body = ErrorBody ''User not found''\<rparr>"
    using assms by (simp add: deposit_def deposit_try_def handler_defs filter_bump split: option.splits)
  have 3: "fst (daily f z t (Some u) w) = \<lparr>status = 404, body = ErrorBody ''User not found.''\<rparr>"
    using assms by (simp add: daily_def daily_try_def handler_defs split: option.splits)
  have 4: "v \<noteq> [] \<Longrightarrow> 0 < a \<Longrightarrow> fst (pay f (Some u) (Some v) (Some (JNumber a)) w)
                  = \<lparr>status = 400, body = ErrorBody ''Sender not found''\<rparr>"
    using assms by (simp add: pay_def pay_try_def handler_defs split: option.splits)
  have 5: "v \<noteq> [] \<Longrightarrow> 0 < a \<Longrightarrow> filter (\<lambda>r. uuid r = v) (user_funds w) = r # rest
            \<Longrightarrow> a \<le> balance r
            \<Longrightarrow> fst (pay f (Some v) (Some u) (Some (JNumber a)) w)
                  = \<lparr>status = 400, body = ErrorBody ''Recipient not found''\<rparr>"
    using assms by (simp add: pay_def pay_try_def handler_defs filter_uuid_map split: option.splits)
  have 6: "0 < c \<Longrightarrow> fst (withdraw f (Some u) (Some (JNumber c)) den w)
                  = \<lparr>status = 400, body = ErrorBody ''User not found''\<rparr>"
    using assms by (simp add: withdraw_def withdraw_try_def handler_defs split: option.splits)
  from 1 2 3 4 5 6 show ?thesis by blast
qed

theorem absent_account_status_witness:
  "fst (get_balance no_faults (Some ''nobody'') alice_and_bob)
     = \<lparr>status = 404, body = ErrorBody ''Player not found''\<rparr>
   \<and> fst (deposit no_faults (Some ''nobody'') (Some (JNumber 30)) alice_and_bob)
     = \<lparr>status = 404, body = ErrorBody ''User not found''\<rparr>
   \<and> fst (daily no_faults europe_berlin 1000000000000 (Some ''nobody'') alice_and_bob)
     = \<lparr>status = 404, body = ErrorBody ''User not found.''\<rparr>
   \<and> fst (pay no_faults (Some ''nobody'') (Some ''u1'') (Some (JNumber 30)) alice_and_bob)
     = \<lparr>status = 400, body = ErrorBody ''Sender not found''\<rparr>
   \<and> fst (pay no_faults (Some ''u1'') (Some ''nobody'') (Some (JNumber 30)) alice_and_bob)
     = \<lparr>status = 400, body = ErrorBody ''Recipient not found''\<rparr>
   \<and> fst (withdraw no_faults (Some ''nobody'') (Some (JNumber 1)) None alice_and_bob)
     = \<lparr>status = 400, body = ErrorBody ''User not found''\<rparr>"
  using absent_account_status [of "''nobody''" alice_and_bob no_faults 30 europe_berlin
      1000000000000 "''u1''" "\<lparr>uuid = ''u1'', name = ''Alice'', balance = 100\<rparr>" "[]" 1 None]
  by (simp add: alice_and_bob_def no_faults_def)

subsection \<open>A failing log append\<close>

text \<open>What a successful answer says about the run.\<close>

lemma pay_success_D:
  "status (fst (pay f uid to amt w)) = 200 \<Longrightarrow>
     \<exists>u t a r rest. uid = Some u \<and> to = Some t \<and> as_number amt = Some a \<and> u \<noteq> [] \<and> t \<noteq> []
       \<and> 0 < a \<and> f Begin = None \<and> f SelectFunds = None \<and> f DebitFunds = None
       \<and> f CreditFunds = None \<and> f Commit = None \<and> f InsertLog = None
       \<and> filter (\<lambda>r. uuid r = u) (user_funds w) = r # rest \<and> a \<le> balance r
       \<and> filter (\<lambda>r. uuid r = t) (user_funds w) \<noteq> []"
  by (auto simp add: pay_def pay_try_def handler_defs filter_uuid_map
      split: option.splits list.splits prod.splits sum.splits if_splits)

lemma deposit_success_D:
  "status (fst (deposit f uid amt w)) = 200 \<Longrightarrow>
     \<exists>u a r rest. uid = Some u \<and> as_number amt = Some a \<and> u \<noteq> [] \<and> 0 < a
       \<and> f Begin = None \<and> f CreditFunds = None \<and> f Commit = None \<and> f InsertLog = None
       \<and> filter (\<lambda>r. uuid r = u) (user_funds w) = r # rest"
  by (auto simp add: deposit_def deposit_try_def handler_defs filter_uuid_map
      split: option.splits list.splits prod.splits sum.splits if_splits)

lemma withdraw_success_D:
  "status (fst (withdraw f uid cnt den w)) = 200 \<Longrightarrow>
     \<exists>u c r rest. uid = Some u \<and> as_number cnt = Some c \<and> u \<noteq> [] \<and> 0 < c
       \<and> f Begin = None \<and> f SelectFunds = None \<and> f DebitFunds = None \<and> f Commit = None
       \<and> f InsertLog = None
       \<and> filter (\<lambda>r. uuid r = u) (user_funds w) = r # rest
       \<and> c * (case as_number den of Some d \<Rightarrow> d | None \<Rightarrow> 1000) \<le> balance r"
  by (auto simp add: withdraw_def withdraw_try_def handler_defs filter_uuid_map
      split: option.splits list.splits prod.splits sum.splits if_splits)

lemma pay_log_failure:
  assumes "f InsertLog = Some m"
    and "status (fst (pay (f(InsertLog := None)) uid to amt w)) = 200"
  shows "fst (pay f uid to amt w) = \<lparr>status = 400, body = ErrorBody m\<rparr>
       \<and> snd (pay f uid to amt w)
           = logger error (''/currency/pay error: error: '' @ m)
               ((snd (pay (f(InsertLog := None)) uid to amt w))
                  \<lparr>currency_transactions := currency_transactions w\<rparr>)"
proof -
  from pay_success_D [OF assms(2)] obtain u t a r rest where
    v: "uid = Some u" "to = Some t" "as_number amt = Some a" "u \<noteq> []" "t \<noteq> []" "0 < a"
      "f Begin = None" "f SelectFunds = None" "f DebitFunds = None" "f CreditFunds = None"
      "f Commit = None" "filter (\<lambda>r. uuid r = u) (user_funds w) = r # rest" "a \<le> balance r"
      "filter (\<lambda>r. uuid r = t) (user_funds w) \<noteq> []"
    by auto
  with assms(1) show ?thesis
    by (simp add: pay_def pay_try_def handler_defs filter_uuid_map split: option.splits)
qed

lemma deposit_log_failure:
  assumes "f InsertLog = Some m"
    and "status (fst (deposit (f(InsertLog := None)) uid amt w)) = 200"
  shows "fst (deposit f uid amt w) = \<lparr>status = 400, body = ErrorBody m\<rparr>
       \<and> snd (deposit f uid amt w)
           = logger error (''/currency/deposit error: error: '' @ m)
               ((snd (deposit (f(InsertLog := None)) uid amt w))
                  \<lparr>currency_transactions := currency_transactions w\<rparr>)"
proof -
  from deposit_success_D [OF assms(2)] obtain u a r rest where
    v: "uid = Some u" "as_number amt = Some a" "u \<noteq> []" "0 < a"
      "f Begin = None" "f CreditFunds = None"
      "f Commit = None" "filter (\<lambda>r. uuid r = u) (user_funds w) = r # rest"
    by auto
  with assms(1) show ?thesis
    by (simp add: deposit_def deposit_try_def handler_defs filter_uuid_map split: option.splits)
qed

lemma withdraw_log_failure:
  assumes "f InsertLog = Some m"
    and "status (fst (withdraw (f(InsertLog := None)) uid cnt den w)) = 200"
  shows "fst (withdraw f uid cnt den w) = \<lparr>status = 400, body = ErrorBody m\<rparr>
       \<and> snd (withdraw f uid cnt den w)
           = logger error (''/currency/withdraw error: error: '' @ m)
               ((snd (withdraw (f(InsertLog := None)) uid cnt den w))
                  \<lparr>currency_transactions := currency_transactions w\<rparr>)"
proof -
  from withdraw_success_D [OF assms(2)] obtain u c r rest where
    v: "uid = Some u" "as_number cnt = Some c" "u \<noteq> []" "0 < c"
      "f Begin = None" "f SelectFunds = None" "f DebitFunds = None"
      "f Commit = None" "filter (\<lambda>r. uuid r = u) (user_funds w) = r # rest"
      "c * (case as_number den of Some d \<Rightarrow> d | None \<Rightarrow> 1000) \<le> balance r"
    by auto
  with assms(1) show ?thesis
    by (simp add: withdraw_def withdraw_try_def handler_defs filter_uuid_map
        split: option.splits)
qed

text \<open>
  C8 asks that a failing log append be swallowed, the caller still receiving the
  operation's success response. On the code \<^verbatim>\<open>logTransactions\<close> is awaited inside the
  handler's \<^verbatim>\<open>try\<close>: when its insert fails after \<^verbatim>\<open>COMMIT\<close>, the \<^verbatim>\<open>catch\<close>
  block answers 400 with the error's message. The transfer of 30 stays committed.
\<close>

theorem log_failure_is_answered_400:
  "fst (pay log_down (Some ''u1'') (Some ''u2'') (Some (JNumber 30)) alice_and_bob)
     = \<lparr>status = 400, body = ErrorBody ''connection terminated''\<rparr>
   \<and> map balance (user_funds (snd (pay log_down (Some ''u1'') (Some ''u2'') (Some (JNumber 30))
                                     alice_and_bob)))
     = [70, 35]"
  by (simp add: pay_def pay_try_def handler_defs alice_and_bob_def log_down_def bump_def)

text \<open>
  C8 as amended. For pay, deposit and withdraw: when the log append fails in a run that
  would otherwise have succeeded, the caller receives status 400 with the error's
  message, and the store is the one of the successful run (the committed balance change
  is not reversed) except that no transaction record is appended and one line is logged
  at error severity.
\<close>

theorem log_failure_after_commit:
  assumes "f InsertLog = Some m"
  shows "(status (fst (pay (f(InsertLog := None)) uid to amt w)) = 200
          \<longrightarrow> fst (pay f uid to amt w) = \<lparr>status = 400, body = ErrorBody m\<rparr>
            \<and> snd (pay f uid to amt w)
                = logger error (''/currency/pay error: error: '' @ m)
                    ((snd (pay (f(InsertLog := None)) uid to amt w))
                       \<lparr>currency_transactions := currency_transactions w\<rparr>))
       \<and> (status (fst (deposit (f(InsertLog := None)) uid amt w)) = 200
          \<longrightarrow> fst (deposit f uid amt w) = \<lparr>status = 400, body = ErrorBody m\<rparr>
            \<and> snd (deposit f uid amt w)
                = logger error (''/currency/deposit error: error: '' @ m)
                    ((snd (deposit (f(InsertLog := None)) uid amt w))
                       \<lparr>currency_transactions := currency_transactions w\<rparr>))
       \<and> (status (fst (withdraw (f(InsertLog := None)) uid cnt den w)) = 200
          \<longrightarrow> fst (withdraw f uid cnt den w) = \<lparr>status = 400, body = ErrorBody m\<rparr>
            \<and> snd (withdraw f uid cnt den w)
                = logger error (''/currency/withdraw error: error: '' @ m)
                    ((snd (withdraw (f(InsertLog := None)) uid cnt den w))
                       \<lparr>currency_transactions := currency_transactions w\<rparr>))"
  using assms pay_log_failure [of f m uid to amt w] deposit_log_failure [of f m uid amt w]
    withdraw_log_failure [of f m uid cnt den w]
  by blast

theorem log_failure_after_commit_witness:
  "fst (deposit log_down (Some ''u2'') (Some (JNumber 30)) alice_and_bob)
     = \<lparr>status = 400, body = ErrorBody ''connection terminated''\<rparr>
   \<and> map balance (user_funds (snd (deposit log_down (Some ''u2'') (Some (JNumber 30))
                                     alice_and_bob)))
     = [100, 35]
   \<and> currency_transactions (snd (deposit log_down (Some ''u2'') (Some (JNumber 30)) alice_and_bob))
     = []
   \<and> logfile (snd (deposit log_down (Some ''u2'') (Some (JNumber 30)) alice_and_bob))
     = [(error, ''/currency/deposit error: error: connection terminated'')]"
proof -
  have l: "log_down InsertLog = Some ''connection terminated''"
    by (simp add: log_down_def)
  have n: "log_down(InsertLog := None) = no_faults"
    by (rule ext) (simp add: log_down_def no_faults_def)
  have s: "deposit no_faults (Some ''u2'') (Some (JNumber 30)) alice_and_bob
      = (\<lparr>status = 200, body = DepositOk 35\<rparr>,
         alice_and_bob
           \<lparr>user_funds := [\<lparr>uuid = ''u1'', name = ''Alice'', balance = 100\<rparr>,
                            \<lparr>uuid = ''u2'', name = ''Bob'', balance = 35\<rparr>],
            currency_transactions :=
              [\<lparr>t_uuid = ''u2'', t_action = ''deposit'', t_amount = 30, t_from_uuid = None,
                t_to_uuid = None, t_denomination = None, t_count = None,
                t_balance_after = Some 35\<rparr>]\<rparr>)"
    by (simp add: deposit_def deposit_try_def handler_defs alice_and_bob_def no_faults_def bump_def)
  from l log_failure_after_commit [of log_down "''connection terminated''" "Some ''u2''"
      "Some ''u2''" "Some (JNumber 30)" alice_and_bob "Some (JNumber 1)" None]
  have "fst (deposit log_down (Some ''u2'') (Some (JNumber 30)) alice_and_bob)
          = \<lparr>status = 400, body = ErrorBody ''connection terminated''\<rparr>
      \<and> snd (deposit log_down (Some ''u2'') (Some (JNumber 30)) alice_and_bob)
          = logger error (''/currency/deposit error: error: '' @ ''connection terminated'')
              ((snd (deposit no_faults (Some ''u2'') (Some (JNumber 30)) alice_and_bob))
                 \<lparr>currency_transactions := currency_transactions alice_and_bob\<rparr>)"
    by (simp add: n s)
  then show ?thesis
    by (simp add: s logger_def) (simp_all add: alice_and_bob_def)
qed

subsection \<open>The leaderboard is behind both gates\<close>

text \<open>
  C6 asks that \<^verbatim>\<open>GET /top\<close> need no bearer token and no allow-listed origin. On the
  code the route is registered after \<^verbatim>\<open>router.use("/currency", verifyJWT)\<close> and
  \<^verbatim>\<open>router.use("/currency", verifyIP)\<close>, which gate "all subsequent routes": a
  request without an authorization header is answered 401.
\<close>

theorem top_without_token_is_401:
  "fst (currencyRoutes demo_ctx (anonymous GET ''/currency/top'') alice_and_bob)
     = \<lparr>status = 401, body = ErrorBody ''Missing Authorization header''\<rparr>"
  by (simp add: route_defs)

lemma sorted_top:
  "sorted_wrt (\<ge>) (map balance (take n (sort_key (\<lambda>r. - balance r) rows)))"
proof -
  have "sorted (map (\<lambda>r. - balance r) (sort_key (\<lambda>r. - balance r) rows))"
    by (rule sorted_sort_key)
  then have "sorted (map (\<lambda>r. - balance r) (take n (sort_key (\<lambda>r. - balance r) rows)))"
    by (simp add: take_map [symmetric] sorted_wrt_take del: take_map)
  then show ?thesis
    by (simp add: sorted_wrt_map)
qed

lemma top_route:
  assumes "verb req = GET" and "path req = ''/currency/top''"
  shows "currencyRoutes c req w
     = (case verifyJWT (jwt_verify c) (JWT_SECRET c) (authorization req) of
          Inl r \<Rightarrow> (r, w)
        | Inr decoded \<Rightarrow>
            (case verifyIP (ALLOWED_IP_ADDRESS c) (ALLOWED_IP_ADDRESS_LOCAL c)
                           (x_forwarded_for req) (remoteAddress req) w of
               (Inl r, w') \<Rightarrow> (r, w')
             | (Inr _, w') \<Rightarrow> top (storage_faults c) w'))"
  using assms
  by (simp add: currencyRoutes_def layers_def mounted_under_def starts_with_def
      split: sum.splits prod.splits)

text \<open>
  C6 as amended. \<^verbatim>\<open>GET /top\<close> passes both gates first: without an authorization header
  the answer is 401; whatever \<^verbatim>\<open>verifyJWT\<close> answers is the answer; with a valid token
  and an origin that is not allow-listed the answer is 403; with a valid token, an
  allow-listed origin and a query that succeeds the answer is the leaderboard, at most 10
  entries of the stored accounts ordered by balance descending.
\<close>

theorem top_is_gated:
  assumes "verb req = GET" and "path req = ''/currency/top''"
  shows "(authorization req = None
            \<longrightarrow> fst (currencyRoutes c req w)
                  = \<lparr>status = 401, body = ErrorBody ''Missing Authorization header''\<rparr>)
       \<and> (\<forall>r. verifyJWT (jwt_verify c) (JWT_SECRET c) (authorization req) = Inl r
            \<longrightarrow> fst (currencyRoutes c req w) = r)
       \<and> (\<forall>d r. verifyJWT (jwt_verify c) (JWT_SECRET c) (authorization req) = Inr d
                \<and> fst (verifyIP (ALLOWED_IP_ADDRESS c) (ALLOWED_IP_ADDRESS_LOCAL c)
                                (x_forwarded_for req) (remoteAddress req) w) = Inl r
            \<longrightarrow> fst (currencyRoutes c req w) = r \<and> status r = 403)
       \<and> (\<forall>d. verifyJWT (jwt_verify c) (JWT_SECRET c) (authorization req) = Inr d
                \<and> fst (verifyIP (ALLOWED_IP_ADDRESS c) (ALLOWED_IP_ADDRESS_LOCAL c)
                                (x_forwarded_for req) (remoteAddress req) w) = Inr ()
                \<and> storage_faults c SelectTop = None
            \<longrightarrow> (\<exists>es. fst (currencyRoutes c req w) = \<lparr>status = 200, body = TopOk es\<rparr>
                   \<and> length es \<le> 10 \<and> sorted_wrt (\<ge>) (map snd es)
                   \<and> set es \<subseteq> (\<lambda>r. (name r, balance r)) ` set (user_funds w)))"
proof -
  note t = top_route [OF assms, of c w]
  have 1: "authorization req = None
            \<Longrightarrow> fst (currencyRoutes c req w)
                  = \<lparr>status = 401, body = ErrorBody ''Missing Authorization header''\<rparr>"
    by (simp add: t verifyJWT_def)
  have 2: "verifyJWT (jwt_verify c) (JWT_SECRET c) (authorization req) = Inl r
            \<Longrightarrow> fst (currencyRoutes c req w) = r" for r
    by (simp add: t)
  have 3: "verifyJWT (jwt_verify c) (JWT_SECRET c) (authorization req) = Inr d
            \<Longrightarrow> fst (verifyIP (ALLOWED_IP_ADDRESS c) (ALLOWED_IP_ADDRESS_LOCAL c)
                                (x_forwarded_for req) (remoteAddress req) w) = Inl r
            \<Longrightarrow> fst (currencyRoutes c req w) = r \<and> status r = 403" for d r
    by (auto simp add: t verifyIP_def Let_def split: if_splits)
  have 4: "\<exists>es. fst (currencyRoutes c req w) = \<lparr>status = 200, body = TopOk es\<rparr>
                   \<and> length es \<le> 10 \<and> sorted_wrt (\<ge>) (map snd es)
                   \<and> set es \<subseteq> (\<lambda>r. (name r, balance r)) ` set (user_funds w)"
    if "verifyJWT (jwt_verify c) (JWT_SECRET c) (authorization req) = Inr d"
      and "fst (verifyIP (ALLOWED_IP_ADDRESS c) (ALLOWED_IP_ADDRESS_LOCAL c)
                                (x_forwarded_for req) (remoteAddress req) w) = Inr ()"
      and "storage_faults c SelectTop = None" for d
  proof -
    let ?rows = "take 10 (sort_key (\<lambda>r. - balance r) (user_funds w))"
    from that have "fst (currencyRoutes c req w)
        = \<lparr>status = 200, body = TopOk (map (\<lambda>r. (name r, balance r)) ?rows)\<rparr>"
      by (auto simp add: t verifyIP_def Let_def top_def query_def select_top_def logger_def
          split: if_splits)
    moreover have "length (map (\<lambda>r. (name r, balance r)) ?rows) \<le> 10"
      by simp
    moreover have "sorted_wrt (\<ge>) (map snd (map (\<lambda>r. (name r, balance r)) ?rows))"
      using sorted_top [of 10 "user_funds w"] by (simp add: comp_def)
    moreover have "set (map (\<lambda>r. (name r, balance r)) ?rows)
        \<subseteq> (\<lambda>r. (name r, balance r)) ` set (user_funds w)"
      using set_take_subset [of 10 "sort_key (\<lambda>r. - balance r) (user_funds w)"]
      by auto
    ultimately show ?thesis by blast
  qed
  from 1 2 3 4 show ?thesis by blast
qed

theorem top_is_gated_witness:
  "fst (currencyRoutes demo_ctx (anonymous GET ''/currency/top'') alice_and_bob)
     = \<lparr>status = 401, body = ErrorBody ''Missing Authorization header''\<rparr>
   \<and> fst (currencyRoutes demo_ctx (from_alice GET ''/currency/top'') alice_and_bob)
     = \<lparr>status = 200, body = TopOk [(''Alice'', 100), (''Bob'', 5)]\<rparr>
   \<and> (\<exists>es. fst (currencyRoutes demo_ctx (from_alice GET ''/currency/top'') alice_and_bob)
              = \<lparr>status = 200, body = TopOk es\<rparr>
            \<and> length es \<le> 10 \<and> sorted_wrt (\<ge>) (map snd es))"
proof -
  have v: "verb (anonymous GET ''/currency/top'') = GET"
      "path (anonymous GET ''/currency/top'') = ''/currency/top''"
      "authorization (anonymous GET ''/currency/top'') = None"
      "verb (from_alice GET ''/currency/top'') = GET"
      "path (from_alice GET ''/currency/top'') = ''/currency/top''"
    by (simp_all add: anonymous_def from_alice_def)
  have j: "verifyJWT (jwt_verify demo_ctx) (JWT_SECRET demo_ctx)
             (authorization (from_alice GET ''/currency/top'')) = Inr (Some ''u1'')"
    by (simp add: verifyJWT_def demo_ctx_def from_alice_def anonymous_def)
  have i: "fst (verifyIP (ALLOWED_IP_ADDRESS demo_ctx) (ALLOWED_IP_ADDRESS_LOCAL demo_ctx)
             (x_forwarded_for (from_alice GET ''/currency/top''))
             (remoteAddress (from_alice GET ''/currency/top'')) alice_and_bob) = Inr ()"
    by (simp add: verifyIP_def normalizeIp_def allowed_def trim_def is_space_def starts_with_def
        demo_ctx_def from_alice_def anonymous_def)
  have f: "storage_faults demo_ctx SelectTop = None"
    by (simp add: demo_ctx_def no_faults_def)
  from top_is_gated [OF v(1,2), of demo_ctx alice_and_bob] v(3)
  have 1: "fst (currencyRoutes demo_ctx (anonymous GET ''/currency/top'') alice_and_bob)
     = \<lparr>status = 401, body = ErrorBody ''Missing Authorization header''\<rparr>"
    by blast
  from top_is_gated [OF v(4,5), of demo_ctx alice_and_bob] j i f
  have 3: "\<exists>es. fst (currencyRoutes demo_ctx (from_alice GET ''/currency/top'') alice_and_bob)
              = \<lparr>status = 200, body = TopOk es\<rparr>
            \<and> length es \<le> 10 \<and> sorted_wrt (\<ge>) (map snd es)"
    by blast
  have 2: "fst (currencyRoutes demo_ctx (from_alice GET ''/currency/top'') alice_and_bob)
     = \<lparr>status = 200, body = TopOk [(''Alice'', 100), (''Bob'', 5)]\<rparr>"
    by (simp add: route_defs top_def query_def select_top_def alice_and_bob_def no_faults_def)
  from 1 2 3 show ?thesis by blast
qed

end
